theory Spec2Isabelle
  imports Complex_Main "HOL-Library.AList"
begin

section \<open>Python strings\<close>

text \<open>
  A Python \<open>str\<close> is a sequence of Unicode code points, and the extractor's inputs are
  Chinese text, so a string is a list of code points (\<open>nat\<close>), not a list of bytes.
  \<open>ascii\<close> reads an ASCII literal as such a list.
\<close>

type_synonym ustr = "nat list"

abbreviation ascii :: "string \<Rightarrow> ustr" where
  "ascii s \<equiv> map of_char s"

text \<open>\<open>str.isspace\<close> on one code point (CPython's \<open>_PyUnicode_IsWhitespace\<close>); the same
  test decides \<open>str.strip()\<close> and the regular expression class \<open>\s\<close> on \<open>str\<close> patterns.\<close>

definition is_space :: "nat \<Rightarrow> bool" where
  "is_space c =
     ((9 \<le> c \<and> c \<le> 13) \<or> (28 \<le> c \<and> c \<le> 32) \<or> c = 133 \<or> c = 160 \<or> c = 5760 \<or>
      (8192 \<le> c \<and> c \<le> 8202) \<or> c = 8232 \<or> c = 8233 \<or> c = 8239 \<or> c = 8287 \<or> c = 12288)"

text \<open>\<open>s.strip()\<close>\<close>

definition strip :: "ustr \<Rightarrow> ustr" where
  "strip s = rev (dropWhile is_space (rev (dropWhile is_space s)))"

text \<open>\<open>s.split(sep)\<close> for a separator of one character: never an empty list.\<close>

fun split_chr :: "nat \<Rightarrow> ustr \<Rightarrow> ustr list" where
  "split_chr sep [] = [[]]"
| "split_chr sep (c # cs) =
     (if c = sep then [] # split_chr sep cs
      else (case split_chr sep cs of
              w # ws \<Rightarrow> (c # w) # ws
            | [] \<Rightarrow> [[c]]))"

text \<open>\<open>sep.join(xs)\<close>\<close>

fun join :: "ustr \<Rightarrow> ustr list \<Rightarrow> ustr" where
  "join sep [] = []"
| "join sep [x] = x"
| "join sep (x # y # ys) = x @ sep @ join sep (y # ys)"

text \<open>\<open>s[i:j]\<close> for indices that are not negative.\<close>

definition slice :: "ustr \<Rightarrow> nat \<Rightarrow> nat \<Rightarrow> ustr" where
  "slice s i j = take (j - i) (drop i s)"

text \<open>\<open>sub in s\<close> on strings: \<open>sub\<close> occurs in \<open>s\<close> as a contiguous run.\<close>

fun starts_with :: "ustr \<Rightarrow> ustr \<Rightarrow> bool" where
  "starts_with [] s = True"
| "starts_with (p # ps) [] = False"
| "starts_with (p # ps) (c # cs) = (p = c \<and> starts_with ps cs)"

fun str_in :: "ustr \<Rightarrow> ustr \<Rightarrow> bool" where
  "str_in sub [] = (sub = [])"
| "str_in sub (c # cs) = (starts_with sub (c # cs) \<or> str_in sub cs)"

section \<open>Records of the extractor\<close>

text \<open>
  A Python \<open>dict\<close> keeps its keys in insertion order and assigning to a key that is
  present replaces the value where it stands: an association list under
  \<open>AList.update\<close>. The \<open>extracted_at\<close> field of \<open>ExtractedData\<close> is the wall clock at
  creation and is read by no operation below; it is left out. The \<open>metadata\<close> dictionary
  always has the two keys \<open>headers\<close> and \<open>row_count\<close>, kept as two fields.
\<close>

type_synonym 'v dict = "(ustr \<times> 'v) list"

record ExtractedData =
  content_type :: ustr
  raw_content :: ustr
  structured_data :: "ustr dict list"
  confidence :: real
  source_url :: ustr
  metadata_headers :: "ustr list"
  metadata_row_count :: nat

record DataExtractor =
  extracted_data :: "ExtractedData list"

section \<open>extract_tables and _parse_table\<close>

text \<open>\<open>[h.strip() for h in line.split('|') if h.strip()]\<close>\<close>

definition table_cells :: "ustr \<Rightarrow> ustr list" where
  "table_cells line = map strip (filter (\<lambda>h. strip h \<noteq> []) (split_chr 124 line))"

text \<open>The loop \<open>for i, header in enumerate(headers): if i < len(cells): row_data[header] =
  cells[i]\<close>, walking both lists together.\<close>

fun row_data_loop :: "ustr list \<Rightarrow> ustr list \<Rightarrow> ustr dict \<Rightarrow> ustr dict" where
  "row_data_loop [] cells row_data = row_data"
| "row_data_loop (header # headers) [] row_data = row_data_loop headers [] row_data"
| "row_data_loop (header # headers) (c # cells) row_data =
     row_data_loop headers cells (AList.update header c row_data)"

text \<open>The loop over \<open>table_lines[1:]\<close>, with \<open>rows\<close> as accumulator.\<close>

fun rows_loop :: "ustr list \<Rightarrow> ustr list \<Rightarrow> ustr dict list \<Rightarrow> ustr dict list" where
  "rows_loop headers [] rows = rows"
| "rows_loop headers (line # lines) rows =
     (let cells = table_cells line in
      if cells \<noteq> [] \<and> length cells \<ge> length headers
      then rows_loop headers lines (rows @ [row_data_loop headers cells []])
      else rows_loop headers lines rows)"

definition parse_table :: "ustr list \<Rightarrow> ustr \<Rightarrow> ExtractedData option" where
  "parse_table table_lines url =
     (case table_lines of
        first # second # others \<Rightarrow>
          (let headers = table_cells first;
               rows = rows_loop headers (second # others) []
           in if rows = [] then None
              else Some \<lparr> content_type = ascii ''table'',
                          raw_content = join [10] table_lines,
                          structured_data = rows,
                          confidence = (if length rows > 1 then 0.9 else 0.7),
                          source_url = url,
                          metadata_headers = headers,
                          metadata_row_count = length rows \<rparr>)
      | _ \<Rightarrow> None)"

text \<open>The two places where a finished block is parsed and, when it is a table, appended.\<close>

definition flush_table :: "ustr list \<Rightarrow> ustr \<Rightarrow> ExtractedData list \<Rightarrow> ExtractedData list" where
  "flush_table current_table url tables =
     (case parse_table current_table url of
        Some table_data \<Rightarrow> tables @ [table_data]
      | None \<Rightarrow> tables)"

fun lines_loop :: "ustr \<Rightarrow> ustr list \<Rightarrow> ustr list \<Rightarrow> ExtractedData list \<Rightarrow> ExtractedData list" where
  "lines_loop url [] current_table tables =
     (if current_table \<noteq> [] then flush_table current_table url tables else tables)"
| "lines_loop url (line # lines) current_table tables =
     (if 124 \<in> set line then lines_loop url lines (current_table @ [line]) tables
      else if current_table \<noteq> [] then lines_loop url lines [] (flush_table current_table url tables)
      else lines_loop url lines current_table tables)"

text \<open>\<open>extract_tables\<close> returns the tables and extends the extractor's accumulator.\<close>

definition extract_tables :: "DataExtractor \<Rightarrow> ustr \<Rightarrow> ustr \<Rightarrow> ExtractedData list \<times> DataExtractor" where
  "extract_tables self content url =
     (let tables = lines_loop url (split_chr 10 content) [] []
      in (tables, self\<lparr> extracted_data := extracted_data self @ tables \<rparr>))"

section \<open>generate_data_table\<close>

text \<open>
  The values of a row are of any Python type and are rendered by the builtin \<open>str\<close>,
  which is a parameter here (\<open>py_str\<close>). \<open>item.get(col, "")\<close> is the empty string for a
  missing key, and \<open>str("")\<close> is the empty string.
\<close>

definition cell_text :: "('v \<Rightarrow> ustr) \<Rightarrow> 'v dict \<Rightarrow> ustr \<Rightarrow> ustr" where
  "cell_text py_str item col = (case map_of item col of None \<Rightarrow> [] | Some v \<Rightarrow> py_str v)"

fun table_rows_loop :: "('v \<Rightarrow> ustr) \<Rightarrow> ustr list \<Rightarrow> 'v dict list \<Rightarrow> ustr list \<Rightarrow> ustr list" where
  "table_rows_loop py_str columns [] rows = rows"
| "table_rows_loop py_str columns (item # items) rows =
     table_rows_loop py_str columns items
       (rows @ [ascii ''| '' @ join (ascii '' | '') (map (cell_text py_str item) columns) @ ascii '' |''])"

definition generate_data_table :: "('v \<Rightarrow> ustr) \<Rightarrow> 'v dict list \<Rightarrow> ustr list option \<Rightarrow> ustr" where
  "generate_data_table py_str data_list columns_arg =
     (case data_list of
        [] \<Rightarrow> []
      | first # _ \<Rightarrow>
          (let columns = (case columns_arg of None \<Rightarrow> map fst first | Some cs \<Rightarrow> cs);
               header = ascii ''| '' @ join (ascii '' | '') columns @ ascii '' |'' @ [10];
               separator = ascii ''| '' @ join (ascii '' | '') (replicate (length columns) (ascii ''---''))
                             @ ascii '' |'' @ [10];
               rows = table_rows_loop py_str columns data_list []
           in header @ separator @ join [10] rows))"

section \<open>Regular expressions\<close>

text \<open>
  The extractor works through Python's \<open>re\<close> module. The part of it that the source uses
  is modelled here: a pattern is a term of \<open>regex\<close>, and matching is Python's backtracking
  search, which tries the alternatives of a pattern in a fixed order (the left branch of
  an alternation first, more repetitions first for a greedy quantifier and fewer first
  for a lazy one) and keeps the first way that lets the rest of the pattern match.
  On \<open>str\<close> patterns \<open>\d\<close> is a Unicode decimal digit and \<open>\s\<close> is \<open>str.isspace\<close>.
\<close>

text \<open>The decimal digits of Unicode 14 (category Nd) come in runs of ten, from the digit
  zero to the digit nine; these are the code points of the zeros.\<close>

definition decimal_zeros :: "nat list" where
  "decimal_zeros =
     [48, 1632, 1776, 1984, 2406, 2534, 2662, 2790, 2918, 3046, 3174, 3302, 3430, 3558,
      3664, 3792, 3872, 4160, 4240, 6112, 6160, 6470, 6608, 6784, 6800, 6992, 7088, 7232,
      7248, 42528, 43216, 43264, 43472, 43504, 43600, 44016, 65296, 66720, 68912, 69734,
      69872, 69942, 70096, 70384, 70736, 70864, 71248, 71360, 71472, 71904, 72016, 72784,
      73040, 73120, 92768, 92864, 93008, 120782, 120792, 120802, 120812, 120822, 123200,
      123632, 125264, 130032]"

definition is_digit :: "nat \<Rightarrow> bool" where
  "is_digit c = list_ex (\<lambda>z. z \<le> c \<and> c < z + 10) decimal_zeros"

text \<open>The value of a decimal digit: its distance from the zero of its run.\<close>

definition digit_value :: "nat \<Rightarrow> nat" where
  "digit_value c = (case filter (\<lambda>z. z \<le> c \<and> c < z + 10) decimal_zeros of z # _ \<Rightarrow> c - z | [] \<Rightarrow> 0)"

datatype regex =
    Cls "nat \<Rightarrow> bool"
  | Lit ustr
  | Seq regex regex
  | Alt regex regex
  | Rep nat "nat option" bool regex
  | Grp nat regex

text \<open>
  \<open>Cls P\<close> is one character that satisfies \<open>P\<close>, \<open>Lit s\<close> the characters of \<open>s\<close> in a row,
  \<open>Rep lo hi greedy r\<close> between \<open>lo\<close> and \<open>hi\<close> copies of \<open>r\<close> (\<open>None\<close>: no upper bound),
  \<open>Grp n r\<close> the capturing group number \<open>n\<close>.
\<close>

fun seqs :: "regex list \<Rightarrow> regex" where
  "seqs [] = Lit []"
| "seqs [r] = r"
| "seqs (r # rs) = Seq r (seqs rs)"

fun alts :: "regex list \<Rightarrow> regex" where
  "alts [] = Lit []"
| "alts [r] = r"
| "alts (r # rs) = Alt r (alts rs)"

text \<open>A state of the matcher: the offset reached, the text left, and the span of group 1
  when it has matched. The source reads no other group.\<close>

type_synonym mstate = "nat \<times> ustr \<times> (nat \<times> nat) option"

text \<open>The repetition loop: \<open>hi\<close> is the number of copies still allowed.\<close>

fun rep :: "(mstate \<Rightarrow> (mstate \<Rightarrow> mstate option) \<Rightarrow> mstate option) \<Rightarrow> nat \<Rightarrow> nat \<Rightarrow> bool \<Rightarrow>
            mstate \<Rightarrow> (mstate \<Rightarrow> mstate option) \<Rightarrow> mstate option" where
  "rep body lo 0 greedy st k = (if lo = 0 then k st else None)"
| "rep body lo (Suc hi) greedy st k =
     (if 0 < lo then body st (\<lambda>st'. rep body (lo - 1) hi greedy st' k)
      else if greedy then
        (case body st (\<lambda>st'. rep body 0 hi greedy st' k) of
           Some res \<Rightarrow> Some res
         | None \<Rightarrow> k st)
      else
        (case k st of
           Some res \<Rightarrow> Some res
         | None \<Rightarrow> body st (\<lambda>st'. rep body 0 hi greedy st' k)))"

text \<open>
  \<open>rmatch r st k\<close> matches \<open>r\<close> at the state \<open>st\<close> and hands every state it can end in to the
  continuation \<open>k\<close>, in Python's order of preference, until \<open>k\<close> accepts one. A repetition
  with no upper bound is run for at most as many copies as there are characters left;
  that is exact when each copy consumes a character, as in every pattern below.
\<close>

primrec rmatch :: "regex \<Rightarrow> mstate \<Rightarrow> (mstate \<Rightarrow> mstate option) \<Rightarrow> mstate option" where
  "rmatch (Cls P) st k =
     (case st of (i, s, g) \<Rightarrow>
        (case s of [] \<Rightarrow> None | c # cs \<Rightarrow> if P c then k (Suc i, cs, g) else None))"
| "rmatch (Lit l) st k =
     (case st of (i, s, g) \<Rightarrow>
        if starts_with l s then k (i + length l, drop (length l) s, g) else None)"
| "rmatch (Seq a b) st k = rmatch a st (\<lambda>st'. rmatch b st' k)"
| "rmatch (Alt a b) st k = (case rmatch a st k of Some res \<Rightarrow> Some res | None \<Rightarrow> rmatch b st k)"
| "rmatch (Rep lo hi greedy a) st k =
     rep (rmatch a) lo (case hi of None \<Rightarrow> max lo (length (fst (snd st))) | Some h \<Rightarrow> h) greedy st k"
| "rmatch (Grp n a) st k =
     rmatch a st
       (\<lambda>st'. k (fst st', fst (snd st'), if n = 1 then Some (fst st, fst st') else snd (snd st')))"

text \<open>A match object: \<open>match.start()\<close>, \<open>match.end()\<close> and the span of group 1.\<close>

record re_match =
  m_start :: nat
  m_end :: nat
  m_span1 :: "(nat \<times> nat) option"

definition match_at :: "regex \<Rightarrow> nat \<Rightarrow> ustr \<Rightarrow> re_match option" where
  "match_at r i s =
     (case rmatch r (i, s, None) Some of
        None \<Rightarrow> None
      | Some (j, s', g) \<Rightarrow> Some \<lparr> m_start = i, m_end = j, m_span1 = g \<rparr>)"

text \<open>\<open>re.search\<close>: the match at the leftmost offset that has one. \<open>search_from r i s\<close>
  searches the text \<open>s\<close> that starts at offset \<open>i\<close>.\<close>

fun search_from :: "regex \<Rightarrow> nat \<Rightarrow> ustr \<Rightarrow> re_match option" where
  "search_from r i [] = match_at r i []"
| "search_from r i (c # cs) =
     (case match_at r i (c # cs) of
        Some mt \<Rightarrow> Some mt
      | None \<Rightarrow> search_from r (Suc i) cs)"

definition re_search :: "regex \<Rightarrow> ustr \<Rightarrow> re_match option" where
  "re_search r s = search_from r 0 s"

text \<open>\<open>re.finditer\<close>: the matches from left to right, each search starting where the match
  before ended. After an empty match the search moves on by one character; the patterns
  the source iterates over match no empty string.\<close>

function finditer_from :: "regex \<Rightarrow> nat \<Rightarrow> ustr \<Rightarrow> re_match list" where
  "finditer_from r i [] = (case match_at r i [] of None \<Rightarrow> [] | Some mt \<Rightarrow> [mt])"
| "finditer_from r i (c # cs) =
     (case match_at r i (c # cs) of
        None \<Rightarrow> finditer_from r (Suc i) cs
      | Some mt \<Rightarrow>
          mt # (if i < m_end mt then finditer_from r (m_end mt) (drop (m_end mt - i) (c # cs))
                else finditer_from r (Suc i) cs))"
  by pat_completeness auto
termination
  by (relation "measure (\<lambda>(r, i, s). length s)") auto

definition re_finditer :: "regex \<Rightarrow> ustr \<Rightarrow> re_match list" where
  "re_finditer r s = finditer_from r 0 s"

text \<open>\<open>match.group(1)\<close>; \<open>None\<close> when the group took no part in the match.\<close>

definition group1 :: "ustr \<Rightarrow> re_match \<Rightarrow> ustr option" where
  "group1 content mt = (case m_span1 mt of None \<Rightarrow> None | Some (a, b) \<Rightarrow> Some (slice content a b))"

text \<open>\<open>match.group()\<close>\<close>

definition group0 :: "ustr \<Rightarrow> re_match \<Rightarrow> ustr" where
  "group0 content mt = slice content (m_start mt) (m_end mt)"

section \<open>Compiling a pattern that contains a caller's text\<close>

text \<open>
  \<open>extract_key_metrics\<close> pastes each metric name into a pattern unescaped, so the name is
  read as pattern syntax, and \<open>extract_timeline\<close> pastes a date between \<open>[\<close> and \<open>]\<close>.
  \<open>re.search\<close> compiles the pattern first and raises \<open>re.error\<close> when it is malformed;
  \<open>re_error\<close> is that exception. The parser below reads the pattern syntax \<open>( ) | * + ? .\<close>
  and literal characters. A pasted text with other syntax (character sets, braces,
  escapes, anchors, \<open>(?\<close> extensions, possessive quantifiers, a repetition of an item that
  can match the empty string) gives \<open>Not_covered\<close>, and the search is then done by \<open>lib\<close>,
  a parameter of the extractor that stands for \<open>re.search\<close> itself: it takes the text of
  the pattern and the text to search, and returns the error raised or the match found.
  Nothing is assumed about \<open>lib\<close>. \<open>Other_error\<close> is any \<open>re.error\<close> that only \<open>lib\<close> reports.
\<close>

datatype re_error =
    Nothing_to_repeat
  | Multiple_repeat
  | Unbalanced_parenthesis
  | Missing_parenthesis
  | Bad_character_range
  | Other_error

datatype parsed = Parsed regex | Raises re_error | Not_covered

text \<open>A pattern as the parser reads it: the characters of the pasted text, and the fixed
  parts of the source's pattern, already parsed (\<open>Group_item\<close>: a capturing group, numbered
  when the parser reaches it).\<close>

datatype token = Chr nat | Item regex | Group_item regex

fun is_repeat :: "regex \<Rightarrow> bool" where
  "is_repeat (Rep lo hi greedy r) = True"
| "is_repeat r = False"

fun nullable :: "regex \<Rightarrow> bool" where
  "nullable (Cls P) = False"
| "nullable (Lit l) = (l = [])"
| "nullable (Seq a b) = (nullable a \<and> nullable b)"
| "nullable (Alt a b) = (nullable a \<or> nullable b)"
| "nullable (Rep lo hi greedy a) = (lo = 0 \<or> nullable a)"
| "nullable (Grp n a) = nullable a"

text \<open>An open group while parsing: its finished alternatives, the items of the alternative
  being read, and its number (0 for the whole pattern).\<close>

type_synonym frame = "regex list list \<times> regex list \<times> nat"

definition close_frame :: "frame \<Rightarrow> regex" where
  "close_frame fr = (case fr of (branches, items, n) \<Rightarrow> alts (map seqs (branches @ [items])))"

text \<open>\<open>*\<close>, \<open>+\<close> and \<open>?\<close> as bounds.\<close>

definition repeat_bounds :: "nat \<Rightarrow> nat \<times> nat option" where
  "repeat_bounds c = (if c = 63 then (0, Some 1) else if c = 42 then (0, None) else (1, None))"

text \<open>
  The parser of \<open>sre_parse\<close>, for the characters \<open>( ) | * + ? .\<close> and literals. \<open>stack\<close> holds
  the groups that enclose the one being read, \<open>n\<close> counts the capturing groups opened.
\<close>

fun parse_tokens :: "token list \<Rightarrow> frame list \<Rightarrow> frame \<Rightarrow> nat \<Rightarrow> parsed" where
  "parse_tokens [] stack fr n =
     (if stack = [] then Parsed (close_frame fr) else Raises Missing_parenthesis)"
| "parse_tokens (Item r # ts) stack (branches, items, g) n =
     parse_tokens ts stack (branches, items @ [r], g) n"
| "parse_tokens (Group_item r # ts) stack (branches, items, g) n =
     parse_tokens ts stack (branches, items @ [Grp (Suc n) r], g) (Suc n)"
| "parse_tokens (Chr c # ts) stack (branches, items, g) n =
     (if c = 40 then
        (case ts of
           Chr q # ts' \<Rightarrow>
             if q = 63 then Not_covered
             else parse_tokens ts ((branches, items, g) # stack) ([], [], Suc n) (Suc n)
         | _ \<Rightarrow> parse_tokens ts ((branches, items, g) # stack) ([], [], Suc n) (Suc n))
      else if c = 41 then
        (case stack of
           [] \<Rightarrow> Raises Unbalanced_parenthesis
         | (branches', items', g') # stack' \<Rightarrow>
             parse_tokens ts stack' (branches', items' @ [Grp g (close_frame (branches, items, g))], g') n)
      else if c = 124 then parse_tokens ts stack (branches @ [items], [], g) n
      else if c = 42 \<or> c = 43 \<or> c = 63 then
        (if items = [] then Raises Nothing_to_repeat
         else if is_repeat (last items) then Raises Multiple_repeat
         else if nullable (last items) then Not_covered
         else
           (case ts of
              Chr q # ts' \<Rightarrow>
                if q = 63 then
                  parse_tokens ts' stack
                    (branches,
                     butlast items @ [Rep (fst (repeat_bounds c)) (snd (repeat_bounds c)) False (last items)],
                     g) n
                else if q = 43 then Not_covered
                else
                  parse_tokens ts stack
                    (branches,
                     butlast items @ [Rep (fst (repeat_bounds c)) (snd (repeat_bounds c)) True (last items)],
                     g) n
            | _ \<Rightarrow>
                parse_tokens ts stack
                  (branches,
                   butlast items @ [Rep (fst (repeat_bounds c)) (snd (repeat_bounds c)) True (last items)],
                   g) n))
      else if c = 46 then parse_tokens ts stack (branches, items @ [Cls (\<lambda>x. x \<noteq> 10)], g) n
      else if c = 91 \<or> c = 123 \<or> c = 92 \<or> c = 94 \<or> c = 36 then Not_covered
      else parse_tokens ts stack (branches, items @ [Lit [c]], g) n)"

definition re_compile :: "token list \<Rightarrow> parsed" where
  "re_compile ts = parse_tokens ts [] ([], [], 0) 0"

text \<open>
  The inside of a character set \<open>[...]\<close>, for a text with no \<open>]\<close>, no backslash and no
  leading \<open>^\<close>: \<open>a-b\<close> is the range from \<open>a\<close> to \<open>b\<close>, an error when \<open>b\<close> is before \<open>a\<close>; a \<open>-\<close>
  that ends the set is a literal. The result lists the ranges, a single character \<open>c\<close> as
  the range from \<open>c\<close> to \<open>c\<close>.
\<close>

fun class_items :: "ustr \<Rightarrow> re_error + (nat \<times> nat) list" where
  "class_items [] = Inr []"
| "class_items [c] = Inr [(c, c)]"
| "class_items (c # d # cs) =
     (if d = 45 then
        (case cs of
           [] \<Rightarrow> Inr [(c, c), (45, 45)]
         | hi # cs' \<Rightarrow>
             if hi < c then Inl Bad_character_range
             else (case class_items cs' of Inl e \<Rightarrow> Inl e | Inr items \<Rightarrow> Inr ((c, hi) # items)))
      else (case class_items (d # cs) of Inl e \<Rightarrow> Inl e | Inr items \<Rightarrow> Inr ((c, c) # items)))"

definition in_class :: "(nat \<times> nat) list \<Rightarrow> nat \<Rightarrow> bool" where
  "in_class items c = list_ex (\<lambda>(lo, hi). lo \<le> c \<and> c \<le> hi) items"

definition compile_class :: "ustr \<Rightarrow> parsed" where
  "compile_class body =
     (if body = [] \<or> 93 \<in> set body \<or> 92 \<in> set body \<or> hd body = 94 then Not_covered
      else (case class_items body of Inl e \<Rightarrow> Raises e | Inr items \<Rightarrow> Parsed (Cls (in_class items))))"

text \<open>\<open>re.search(pattern, content)\<close> for a pattern that was parsed, that raises, or that is
  left to \<open>lib\<close> as the text \<open>pattern_text\<close>.\<close>

type_synonym re_lib = "ustr \<Rightarrow> ustr \<Rightarrow> re_error + re_match option"

definition search_with :: "re_lib \<Rightarrow> parsed \<Rightarrow> ustr \<Rightarrow> ustr \<Rightarrow> re_error + re_match option" where
  "search_with lib p pattern_text content =
     (case p of
        Parsed r \<Rightarrow> Inr (re_search r content)
      | Raises e \<Rightarrow> Inl e
      | Not_covered \<Rightarrow> lib pattern_text content)"

section \<open>extract_statistics\<close>

text \<open>
  A Python \<open>float\<close> is an IEEE 754 double, and \<open>float(s)\<close> rounds the decimal number that \<open>s\<close>
  denotes to the nearest double, to the one with the even significand when two are
  equally near, and to infinity from \<open>2 ^ 1024 - 2 ^ 970\<close> on. The finite doubles are the
  numbers \<open>m * 2 ^ e\<close> with \<open>\<bar>m\<bar> < 2 ^ 53\<close> and \<open>- 1074 \<le> e \<le> 971\<close>. \<open>round_magnitude x\<close> is the
  double of \<open>x \<ge> 0\<close>: with \<open>e\<close> the exponent of the last place of \<open>x\<close>, it rounds \<open>x / 2 ^ e\<close> to
  an integer and scales it back. The sign of a zero is not kept.
\<close>

datatype float_value = Finite real | Infinity | Neg_infinity

definition pow2 :: "int \<Rightarrow> real" where
  "pow2 e = (if 0 \<le> e then 2 ^ nat e else 1 / 2 ^ nat (- e))"

definition round_half_even :: "real \<Rightarrow> int" where
  "round_half_even q =
     (let f = \<lfloor>q\<rfloor>; d = q - of_int f in
      if d < 1 / 2 then f else if 1 / 2 < d then f + 1 else if even f then f else f + 1)"

definition round_magnitude :: "real \<Rightarrow> float_value" where
  "round_magnitude x =
     (if x = 0 then Finite 0
      else
        (let e = max (- 1074) (\<lfloor>log 2 x\<rfloor> - 52);
             y = of_int (round_half_even (x / pow2 e)) * pow2 e
         in if 2 ^ 1024 \<le> y then Infinity else Finite y))"

definition negate :: "float_value \<Rightarrow> float_value" where
  "negate v = (case v of Finite x \<Rightarrow> Finite (- x) | Infinity \<Rightarrow> Neg_infinity | Neg_infinity \<Rightarrow> Infinity)"

text \<open>\<open>v >= b\<close> for a float \<open>v\<close> and a finite bound \<open>b\<close>.\<close>

definition float_ge :: "float_value \<Rightarrow> real \<Rightarrow> bool" where
  "float_ge v b = (case v of Finite x \<Rightarrow> b \<le> x | Infinity \<Rightarrow> True | Neg_infinity \<Rightarrow> False)"

text \<open>
  \<open>float(s)\<close> on an optional sign, digits and an optional fraction: the only strings that a
  token of \<open>NUMBER_PATTERN\<close> can give once its commas are removed. \<open>None\<close> is \<open>ValueError\<close>.
\<close>

definition digits_value :: "ustr \<Rightarrow> nat" where
  "digits_value ds = foldl (\<lambda>acc c. 10 * acc + digit_value c) 0 ds"

definition unsigned_float :: "ustr \<Rightarrow> float_value option" where
  "unsigned_float s =
     (let whole = takeWhile is_digit s; after = dropWhile is_digit s in
      case after of
        [] \<Rightarrow> if whole = [] then None else Some (round_magnitude (real (digits_value whole)))
      | c # fraction \<Rightarrow>
          if c = 46 \<and> list_all is_digit fraction \<and> (whole \<noteq> [] \<or> fraction \<noteq> [])
          then Some (round_magnitude
                       (real (digits_value whole) + real (digits_value fraction) / 10 ^ length fraction))
          else None)"

definition py_float :: "ustr \<Rightarrow> float_value option" where
  "py_float s =
     (case s of
        [] \<Rightarrow> None
      | c # cs \<Rightarrow>
          if c = 45 then map_option negate (unsigned_float cs)
          else if c = 43 then unsigned_float cs
          else unsigned_float s)"

datatype stat_value = Text ustr | Number float_value

text \<open>The class \<open>Statistic\<close>; its fields carry the prefix \<open>s_\<close>.\<close>

record Statistic =
  s_name :: ustr
  s_value :: stat_value
  s_unit :: ustr
  s_period :: ustr
  s_source :: ustr
  s_confidence :: real

text \<open>\<open>([-+]?\d{1,3}(?:,\d{3})*(?:\.\d+)?%?\s*)\<close>\<close>

definition NUMBER_PATTERN :: regex where
  "NUMBER_PATTERN =
     Grp 1 (seqs [Rep 0 (Some 1) True (Cls (\<lambda>c. c = 45 \<or> c = 43)),
                  Rep 1 (Some 3) True (Cls is_digit),
                  Rep 0 None True (Seq (Lit [44]) (Rep 3 (Some 3) True (Cls is_digit))),
                  Rep 0 (Some 1) True (Seq (Lit [46]) (Rep 1 None True (Cls is_digit))),
                  Rep 0 (Some 1) True (Lit [37]),
                  Rep 0 None True (Cls is_space)])"

text \<open>\<open>(\d+(?:\.\d+)?%)\s*(?:X|,|\.|X|X|X|XX|XX|XX)?\<close>, where the \<open>X\<close> stand for the fullwidth
  comma U+FF0C and the words U+7684, U+662F, U+4E3A, U+8FBE U+5230, U+589E U+957F,
  U+4E0B U+964D.\<close>

definition PERCENTAGE_PATTERN :: regex where
  "PERCENTAGE_PATTERN =
     seqs [Grp 1 (seqs [Rep 1 None True (Cls is_digit),
                        Rep 0 (Some 1) True (Seq (Lit [46]) (Rep 1 None True (Cls is_digit))),
                        Lit [37]]),
           Rep 0 None True (Cls is_space),
           Rep 0 (Some 1) True
             (alts [Lit [65292], Lit [44], Lit [46], Lit [30340], Lit [26159], Lit [20026],
                    Lit [36798, 21040], Lit [22686, 38271], Lit [19979, 38477]])]"

text \<open>
  The name pattern \<open>([^\s\dX,X]{2,10})(?:X|X|X|XX|\<close>\<^emph>\<open>anchor\<close>\<open>)\<close>: the excluded characters are
  space, digits, U+FF0C, the comma and U+3002; the words are U+7684, U+662F, U+4E3A and
  U+8FBE U+5230. The anchor goes through \<open>re.escape\<close>, so it stands for itself.
\<close>

definition name_char :: "nat \<Rightarrow> bool" where
  "name_char c = (\<not> (is_space c \<or> is_digit c \<or> c = 65292 \<or> c = 44 \<or> c = 12290))"

definition name_pattern :: "ustr \<Rightarrow> regex" where
  "name_pattern anchor =
     Seq (Grp 1 (Rep 2 (Some 10) True (Cls name_char)))
         (alts [Lit [30340], Lit [26159], Lit [20026], Lit [36798, 21040], Lit anchor])"

text \<open>\<open>match.group(1)\<close> for a pattern whose group 1 takes part in every match.\<close>

definition group1_text :: "ustr \<Rightarrow> re_match \<Rightarrow> ustr" where
  "group1_text content mt = (case group1 content mt of None \<Rightarrow> [] | Some t \<Rightarrow> t)"

text \<open>The window \<open>content[max(0, match.start() - before) : min(len(content), match.end() +
  after)]\<close>; the subtraction on \<open>nat\<close> stops at 0.\<close>

definition context_of :: "ustr \<Rightarrow> re_match \<Rightarrow> nat \<Rightarrow> nat \<Rightarrow> ustr" where
  "context_of content mt before after =
     slice content (m_start mt - before) (min (length content) (m_end mt + after))"

text \<open>The body of the first loop: the statistic of one match of \<open>PERCENTAGE_PATTERN\<close>.\<close>

definition percentage_statistic :: "ustr \<Rightarrow> re_match \<Rightarrow> Statistic" where
  "percentage_statistic content mt =
     (let percentage = group1_text content mt;
          context = context_of content mt 50 50;
          stat = \<lparr> s_name = [], s_value = Text percentage, s_unit = [], s_period = [],
                   s_source = [], s_confidence = 0.8 \<rparr>
      in case re_search (name_pattern percentage) context of
           None \<Rightarrow> stat
         | Some name_match \<Rightarrow> stat \<lparr> s_name := strip (group1_text context name_match) \<rparr>)"

fun percentage_loop :: "ustr \<Rightarrow> re_match list \<Rightarrow> Statistic list \<Rightarrow> Statistic list" where
  "percentage_loop content [] statistics = statistics"
| "percentage_loop content (mt # ms) statistics =
     percentage_loop content ms (statistics @ [percentage_statistic content mt])"

text \<open>The unit of a large number: the first of U+4EBF, U+4E07, U+767E U+4E07, U+5343 U+4E07
  found in \<open>context[match.end() : match.end() + 10]\<close>.\<close>

definition unit_of :: "ustr \<Rightarrow> ustr" where
  "unit_of window =
     (if str_in [20159] window then [20159, 20803]
      else if str_in [19975] window then [19975, 20803]
      else if str_in [30334, 19975] window then [30334, 19975]
      else if str_in [21315, 19975] window then [21315, 19975]
      else [])"

text \<open>The body of the second loop, for one match of \<open>NUMBER_PATTERN\<close>: the statistic it
  appends, or \<open>None\<close> when it appends nothing (a \<open>continue\<close>, a value below 10000, or no name
  found).\<close>

definition large_number_statistic :: "ustr \<Rightarrow> re_match \<Rightarrow> Statistic option" where
  "large_number_statistic content mt =
     (let num_str = strip (group1_text content mt) in
      if 37 \<in> set num_str then None
      else
        (case py_float (filter (\<lambda>c. c \<noteq> 44) num_str) of
           None \<Rightarrow> None
         | Some num_value \<Rightarrow>
             if float_ge num_value 10000 then
               (let context = context_of content mt 50 50;
                    unit = unit_of (slice context (m_end mt) (m_end mt + 10))
                in case re_search (name_pattern (take 10 num_str)) context of
                     None \<Rightarrow> None
                   | Some name_match \<Rightarrow>
                       Some \<lparr> s_name = strip (group1_text context name_match),
                              s_value = Number num_value, s_unit = unit, s_period = [],
                              s_source = [], s_confidence = 0.75 \<rparr>)
             else None))"

fun number_loop :: "ustr \<Rightarrow> re_match list \<Rightarrow> Statistic list \<Rightarrow> Statistic list" where
  "number_loop content [] statistics = statistics"
| "number_loop content (mt # ms) statistics =
     number_loop content ms
       (case large_number_statistic content mt of
          None \<Rightarrow> statistics
        | Some stat \<Rightarrow> statistics @ [stat])"

text \<open>The statistics that each of the two loops contributes.\<close>

definition percentage_pass :: "ustr \<Rightarrow> Statistic list" where
  "percentage_pass content = percentage_loop content (re_finditer PERCENTAGE_PATTERN content) []"

definition large_number_pass :: "ustr \<Rightarrow> Statistic list" where
  "large_number_pass content = number_loop content (re_finditer NUMBER_PATTERN content) []"

definition extract_statistics :: "ustr \<Rightarrow> ustr \<Rightarrow> Statistic list" where
  "extract_statistics content url =
     number_loop content (re_finditer NUMBER_PATTERN content)
       (percentage_loop content (re_finditer PERCENTAGE_PATTERN content) [])"

section \<open>extract_key_metrics\<close>

text \<open>A result of \<open>extract_key_metrics\<close>: a dictionary with the keys \<open>metric\<close>, \<open>value\<close>,
  \<open>position\<close> and \<open>confidence\<close>. The value is \<open>match.group(1)\<close>, which is \<open>None\<close> when a group
  that the metric name opens comes first and takes no part in the match.\<close>

record KeyMetric =
  k_metric :: ustr
  k_value :: "ustr option"
  k_position :: nat
  k_confidence :: real

text \<open>\<open>\d+(?:\.\d+)?%?\<close>, the inside of the value group, and \<open>[^\nX]\<close> with U+3002 for \<open>X\<close>.\<close>

definition value_regex :: regex where
  "value_regex =
     seqs [Rep 1 None True (Cls is_digit),
           Rep 0 (Some 1) True (Seq (Lit [46]) (Rep 1 None True (Cls is_digit))),
           Rep 0 (Some 1) True (Lit [37])]"

definition same_sentence :: "nat \<Rightarrow> bool" where
  "same_sentence c = (c \<noteq> 10 \<and> c \<noteq> 12290)"

text \<open>\<open>rf'{metric}[^\nX]{{0,50}}?(\d+(?:\.\d+)?%?)'\<close> and
  \<open>rf'(\d+(?:\.\d+)?%?)[^\nX]{{0,30}}?{metric}'\<close>\<close>

definition forward_tokens :: "ustr \<Rightarrow> token list" where
  "forward_tokens metric =
     map Chr metric @ [Item (Rep 0 (Some 50) False (Cls same_sentence)), Group_item value_regex]"

definition reverse_tokens :: "ustr \<Rightarrow> token list" where
  "reverse_tokens metric =
     [Group_item value_regex, Item (Rep 0 (Some 30) False (Cls same_sentence))] @ map Chr metric"

text \<open>The texts of the two patterns: \<open>value_text\<close> is \<open>\d+(?:\.\d+)?%?\<close>, and \<open>same_sentence_text\<close>
  is \<open>[^\nX]\<close> with U+3002 for \<open>X\<close>.\<close>

definition value_text :: ustr where
  "value_text = [92, 100, 43] @ ascii ''(?:'' @ [92, 46, 92, 100, 43] @ ascii '')?%?''"

definition same_sentence_text :: ustr where
  "same_sentence_text = ascii ''[^'' @ [92, 110, 12290] @ ascii '']''"

definition forward_text :: "ustr \<Rightarrow> ustr" where
  "forward_text metric =
     metric @ same_sentence_text @ ascii ''{0,50}?('' @ value_text @ ascii '')''"

definition reverse_text :: "ustr \<Rightarrow> ustr" where
  "reverse_text metric =
     ascii ''('' @ value_text @ ascii '')'' @ same_sentence_text @ ascii ''{0,30}?'' @ metric"

definition found :: "ustr \<Rightarrow> ustr \<Rightarrow> re_match \<Rightarrow> real \<Rightarrow> KeyMetric" where
  "found content metric mt c =
     \<lparr> k_metric = metric, k_value = group1 content mt, k_position = m_start mt, k_confidence = c \<rparr>"

text \<open>The body of the loop: the records that one metric name adds, the forward match
  first. An \<open>re.error\<close> of either search leaves the function.\<close>

definition metric_results :: "re_lib \<Rightarrow> ustr \<Rightarrow> ustr \<Rightarrow> re_error + KeyMetric list" where
  "metric_results lib content metric =
     (case search_with lib (re_compile (forward_tokens metric)) (forward_text metric) content of
        Inl e \<Rightarrow> Inl e
      | Inr forward_match \<Rightarrow>
          (let forward = (case forward_match of
                            None \<Rightarrow> []
                          | Some mt \<Rightarrow> [found content metric mt 0.85])
           in case search_with lib (re_compile (reverse_tokens metric)) (reverse_text metric)
                     content of
                Inl e \<Rightarrow> Inl e
              | Inr reverse_match \<Rightarrow>
                  Inr (forward @
                       (case reverse_match of
                          None \<Rightarrow> []
                        | Some mt \<Rightarrow> [found content metric mt 0.8]))))"

fun metrics_loop :: "re_lib \<Rightarrow> ustr \<Rightarrow> ustr list \<Rightarrow> KeyMetric list \<Rightarrow> re_error + KeyMetric list" where
  "metrics_loop lib content [] results = Inr results"
| "metrics_loop lib content (metric # metric_names) results =
     (case metric_results lib content metric of
        Inl e \<Rightarrow> Inl e
      | Inr new \<Rightarrow> metrics_loop lib content metric_names (results @ new))"

definition extract_key_metrics :: "re_lib \<Rightarrow> ustr \<Rightarrow> ustr list \<Rightarrow> ustr \<Rightarrow> re_error + KeyMetric list" where
  "extract_key_metrics lib content metric_names url = metrics_loop lib content metric_names []"

section \<open>extract_timeline\<close>

record TimelineEvent =
  e_date :: ustr
  e_description :: ustr
  e_position :: nat

text \<open>The four date patterns, with U+5E74 (year) and U+6708 (month):
  \<open>(\d{4}Y\d{1,2}M)\<close>, \<open>(\d{4}Y)\<close>, \<open>(\d{4}[-/]\d{1,2}[-/]\d{1,2})\<close>, \<open>(Q[1-4]\s*\d{4})\<close>.\<close>

definition time_patterns :: "regex list" where
  "time_patterns =
     [Grp 1 (seqs [Rep 4 (Some 4) True (Cls is_digit), Lit [24180],
                   Rep 1 (Some 2) True (Cls is_digit), Lit [26376]]),
      Grp 1 (seqs [Rep 4 (Some 4) True (Cls is_digit), Lit [24180]]),
      Grp 1 (seqs [Rep 4 (Some 4) True (Cls is_digit), Cls (\<lambda>c. c = 45 \<or> c = 47),
                   Rep 1 (Some 2) True (Cls is_digit), Cls (\<lambda>c. c = 45 \<or> c = 47),
                   Rep 1 (Some 2) True (Cls is_digit)]),
      Grp 1 (seqs [Lit [81], Cls (\<lambda>c. 49 \<le> c \<and> c \<le> 52), Rep 0 None True (Cls is_space),
                   Rep 4 (Some 4) True (Cls is_digit)])]"

text \<open>\<open>rf'[{match.group(1)}][^\nX]{{0,60}}'\<close>: the date becomes the inside of a character
  set. \<open>event_text\<close> is the text of that pattern.\<close>

definition event_pattern :: "ustr \<Rightarrow> parsed" where
  "event_pattern date =
     (case compile_class date of
        Parsed cls \<Rightarrow> Parsed (Seq cls (Rep 0 (Some 60) True (Cls same_sentence)))
      | Raises e \<Rightarrow> Raises e
      | Not_covered \<Rightarrow> Not_covered)"

definition event_text :: "ustr \<Rightarrow> ustr" where
  "event_text date = ascii ''['' @ date @ ascii '']'' @ same_sentence_text @ ascii ''{0,60}''"

fun matches_loop :: "re_lib \<Rightarrow> ustr \<Rightarrow> re_match list \<Rightarrow> TimelineEvent list \<Rightarrow>
                     re_error + TimelineEvent list" where
  "matches_loop lib content [] events = Inr events"
| "matches_loop lib content (mt # ms) events =
     (let context = context_of content mt 30 70;
          date = group1_text content mt
      in case search_with lib (event_pattern date) (event_text date) context of
           Inl e \<Rightarrow> Inl e
         | Inr None \<Rightarrow> matches_loop lib content ms events
         | Inr (Some event_match) \<Rightarrow>
             matches_loop lib content ms
               (events @ [\<lparr> e_date = date,
                            e_description = strip (group0 context event_match),
                            e_position = m_start mt \<rparr>]))"

fun patterns_loop :: "re_lib \<Rightarrow> ustr \<Rightarrow> regex list \<Rightarrow> TimelineEvent list \<Rightarrow>
                      re_error + TimelineEvent list" where
  "patterns_loop lib content [] events = Inr events"
| "patterns_loop lib content (pattern # patterns) events =
     (case matches_loop lib content (re_finditer pattern content) events of
        Inl e \<Rightarrow> Inl e
      | Inr events' \<Rightarrow> patterns_loop lib content patterns events')"

text \<open>The loop that keeps the first event of every date; \<open>seen\<close> is the set of dates met.\<close>

fun unique_loop :: "TimelineEvent list \<Rightarrow> ustr set \<Rightarrow> TimelineEvent list \<Rightarrow> TimelineEvent list" where
  "unique_loop [] seen unique_events = unique_events"
| "unique_loop (event # events) seen unique_events =
     (if e_date event \<notin> seen
      then unique_loop events (insert (e_date event) seen) (unique_events @ [event])
      else unique_loop events seen unique_events)"

text \<open>\<open>list.sort\<close> is stable, as \<open>sort_key\<close> is.\<close>

definition extract_timeline :: "re_lib \<Rightarrow> ustr \<Rightarrow> ustr \<Rightarrow> re_error + TimelineEvent list" where
  "extract_timeline lib content url =
     (case patterns_loop lib content time_patterns [] of
        Inl e \<Rightarrow> Inl e
      | Inr events \<Rightarrow> Inr (unique_loop (sort_key e_position events) {} []))"

section \<open>Sample texts\<close>

text \<open>
  \<open>text_700\<close> is the line of the source's own test text with the words total sales
  (U+603B U+9500 U+91CF), break through (U+7A81 U+7834), a space, \<open>700\<close>, and ten thousand
  vehicles (U+4E07 U+8F86). \<open>text_12345\<close> is sales (U+9500 U+91CF), \<open>12,345\<close>, U+4E07 U+8F86,
  a space and \<open>35.2%\<close>. \<open>text_sales\<close> is sales, reach (U+8FBE U+5230), \<open>120\<close>, U+4E07 U+8F86.
  \<open>text_2024\<close> is \<open>2024\<close>, year (U+5E74), \<open>3\<close>, month (U+6708). \<open>text_bare\<close> is a number
  with nothing around it, \<open>text_table\<close> a table of a header line and one row,
  \<open>text_iso_date\<close> a date with hyphens, \<open>metric_open\<close> an opening parenthesis and
  \<open>text_prefix\<close> a short text without the metric name. \<open>text_boundary\<close> is a name and a
  number just below 10000 that rounds to the double 10000.0, \<open>text_twice\<close> a text with the
  same year token twice, and \<open>text_two\<close> a text with the metric name twice, the first time
  before \<open>7\<close>.
\<close>

definition text_700 :: ustr where
  "text_700 = [24635, 38144, 37327, 31361, 30772, 32] @ ascii ''700'' @ [19975, 36742]"

definition text_12345 :: ustr where
  "text_12345 = [38144, 37327] @ ascii ''12,345'' @ [19975, 36742] @ ascii '' 35.2%''"

definition text_bare :: ustr where
  "text_bare = ascii ''12,345''"

definition text_table :: ustr where
  "text_table = ascii ''h|g'' @ [10] @ ascii ''a|b''"

definition text_iso_date :: ustr where
  "text_iso_date = ascii ''2024-03-15''"

definition metric_open :: ustr where
  "metric_open = ascii ''(''"

definition metric_sales :: ustr where
  "metric_sales = [38144, 37327]"

definition text_sales :: ustr where
  "text_sales = [38144, 37327, 36798, 21040] @ ascii ''120'' @ [19975, 36742]"

definition text_2024 :: ustr where
  "text_2024 = ascii ''2024'' @ [24180] @ ascii ''3'' @ [26376]"

definition text_boundary :: ustr where
  "text_boundary = ascii ''ab9,999.9999999999999''"

definition text_twice :: ustr where
  "text_twice = ascii ''2024'' @ [24180] @ ascii ''a2024'' @ [24180] @ ascii ''b''"


definition metric_dollar :: ustr where
  "metric_dollar = ascii ''US$''"

definition text_dollar :: ustr where
  "text_dollar = ascii ''5 US''"

text \<open>Two values of the parameter \<open>lib\<close>: one that never finds a match, and one that finds
  what \<open>re.search\<close> finds for the metric name \<open>US$\<close> in \<open>text_dollar\<close>, where the forward
  pattern has no match and the reverse pattern matches the whole text with the value
  \<open>5\<close>.\<close>

definition no_lib :: re_lib where
  "no_lib pattern_text content = Inr None"

definition dollar_lib :: re_lib where
  "dollar_lib pattern_text content =
     (if pattern_text = reverse_text metric_dollar \<and> content = text_dollar
      then Inr (Some \<lparr>m_start = 0, m_end = 4, m_span1 = Some (0, 1)\<rparr>)
      else Inr None)"




section \<open>Evaluating a match\<close>

text \<open>
  The continuations that \<open>rmatch\<close> and \<open>rep\<close> build, as constants, and the equations of the
  matcher in terms of them. Rewriting with these equations runs the matcher on a given
  text step by step, a continuation being looked into only when a state reaches it.
\<close>

definition kseq :: "regex \<Rightarrow> (mstate \<Rightarrow> mstate option) \<Rightarrow> mstate \<Rightarrow> mstate option" where
  "kseq b k st = rmatch b st k"

definition kgrp :: "nat \<Rightarrow> nat \<Rightarrow> (mstate \<Rightarrow> mstate option) \<Rightarrow> mstate \<Rightarrow> mstate option" where
  "kgrp n i k st = k (fst st, fst (snd st), if n = 1 then Some (i, fst st) else snd (snd st))"

definition krep :: "(mstate \<Rightarrow> (mstate \<Rightarrow> mstate option) \<Rightarrow> mstate option) \<Rightarrow> nat \<Rightarrow> nat \<Rightarrow> bool \<Rightarrow>
                    (mstate \<Rightarrow> mstate option) \<Rightarrow> mstate \<Rightarrow> mstate option" where
  "krep body lo hi greedy k st = rep body lo hi greedy st k"

named_theorems re_eval

lemma rmatch_Cls_Nil [re_eval]: "rmatch (Cls P) (i, [], g) k = None"
  by simp

lemma rmatch_Cls_Cons [re_eval]:
  "rmatch (Cls P) (i, c # cs, g) k = (if P c then k (Suc i, cs, g) else None)"
  by simp

lemma rmatch_Lit_k [re_eval]:
  "rmatch (Lit l) (i, s, g) k =
     (if starts_with l s then k (i + length l, drop (length l) s, g) else None)"
  by simp

lemma rmatch_Seq_k [re_eval]: "rmatch (Seq a b) st k = rmatch a st (kseq b k)"
  by (simp add: kseq_def [abs_def])

lemma rmatch_Alt_k [re_eval]:
  "rmatch (Alt a b) st k = (case rmatch a st k of Some res \<Rightarrow> Some res | None \<Rightarrow> rmatch b st k)"
  by simp

lemma rmatch_Grp_k [re_eval]: "rmatch (Grp n a) (i, s, g) k = rmatch a (i, s, g) (kgrp n i k)"
  by (simp add: kgrp_def [abs_def] cong: if_cong)

lemma rmatch_Rep_k [re_eval]:
  "rmatch (Rep lo hi greedy a) (i, s, g) k =
     rep (rmatch a) lo (case hi of None \<Rightarrow> max lo (length s) | Some h \<Rightarrow> h) greedy (i, s, g) k"
  by (cases hi) simp_all

lemma rep_k [re_eval]:
  "rep body lo hi greedy st k =
     (if hi = 0 then (if lo = 0 then k st else None)
      else if 0 < lo then body st (krep body (lo - 1) (hi - 1) greedy k)
      else if greedy then
        (case body st (krep body 0 (hi - 1) greedy k) of Some res \<Rightarrow> Some res | None \<Rightarrow> k st)
      else
        (case k st of Some res \<Rightarrow> Some res | None \<Rightarrow> body st (krep body 0 (hi - 1) greedy k)))"
  by (cases hi) (auto simp: krep_def [abs_def] split: option.splits)

lemma kseq_k [re_eval]: "kseq b k (i, s, g) = rmatch b (i, s, g) k"
  by (simp add: kseq_def)

lemma kgrp_k [re_eval]: "kgrp n i k (j, s, g) = k (j, s, if n = 1 then Some (i, j) else g)"
  by (simp add: kgrp_def)

lemma krep_k [re_eval]: "krep body lo hi greedy k (i, s, g) = rep body lo hi greedy (i, s, g) k"
  by (simp add: krep_def)

declare rmatch.simps [simp del]
declare rep.simps [simp del]

text \<open>Digits among the characters that the examples use: ASCII, and the two stretches of
  code points without a decimal digit that hold the CJK ideographs and punctuation and
  the fullwidth comma.\<close>

lemma is_digit_ascii: "c < 1632 \<Longrightarrow> is_digit c = (48 \<le> c \<and> c \<le> 57)"
  by (auto simp: is_digit_def decimal_zeros_def)

lemma is_digit_cjk: "7258 \<le> c \<Longrightarrow> c < 42528 \<Longrightarrow> is_digit c = False"
  by (auto simp: is_digit_def decimal_zeros_def)

lemma is_digit_fullwidth: "44026 \<le> c \<Longrightarrow> c < 65296 \<Longrightarrow> is_digit c = False"
  by (auto simp: is_digit_def decimal_zeros_def)

lemma digit_value_ascii: "48 \<le> c \<Longrightarrow> c \<le> 57 \<Longrightarrow> digit_value c = c - 48"
  by (simp add: digit_value_def decimal_zeros_def)

lemmas text_eval =
  is_digit_ascii is_digit_cjk is_digit_fullwidth digit_value_ascii is_space_def name_char_def
  same_sentence_def strip_def slice_def group0_def group1_def group1_text_def context_of_def
  match_at_def re_search_def re_finditer_def Let_def

section \<open>Lemmas on the line and row loops\<close>

lemma split_chr_subset: "\<forall>l\<in>set (split_chr sep s). set l \<subseteq> set s"
proof (induction s)
  case Nil
  then show ?case by simp
next
  case (Cons c cs)
  show ?case
  proof (cases "split_chr sep cs")
    case Nil
    then show ?thesis by simp
  next
    case (Cons w ws)
    with Cons.IH have "set w \<subseteq> set cs" and "\<forall>l\<in>set ws. set l \<subseteq> set cs" by auto
    then show ?thesis using Cons by (auto split: if_splits)
  qed
qed

lemma lines_loop_no_pipe:
  "\<forall>l\<in>set ls. 124 \<notin> set l \<Longrightarrow> lines_loop url ls [] tables = tables"
  by (induction ls) auto

lemma lines_loop_block:
  "\<forall>l\<in>set block. 124 \<in> set l \<Longrightarrow>
   lines_loop url (block @ ls) cur tables = lines_loop url ls (cur @ block) tables"
  by (induction block arbitrary: cur) auto

lemma lines_loop_after_block:
  "cur \<noteq> [] \<Longrightarrow> \<forall>l\<in>set post. 124 \<notin> set l \<Longrightarrow>
   lines_loop url post cur tables = flush_table cur url tables"
  by (cases post) (auto simp: lines_loop_no_pipe)

lemma lines_loop_skip_pre:
  "\<forall>l\<in>set pre. 124 \<notin> set l \<Longrightarrow> lines_loop url (pre @ ls) [] tables = lines_loop url ls [] tables"
  by (induction pre) auto

lemma rows_loop_all:
  "\<forall>l\<in>set ls. table_cells l \<noteq> [] \<and> length headers \<le> length (table_cells l) \<Longrightarrow>
   rows_loop headers ls rows = rows @ map (\<lambda>l. row_data_loop headers (table_cells l) []) ls"
  by (induction ls arbitrary: rows) (auto simp: Let_def)

lemma table_rows_loop_map:
  "table_rows_loop py_str columns items rows =
     rows @ map (\<lambda>item. ascii ''| '' @ join (ascii '' | '') (map (cell_text py_str item) columns) @ ascii '' |'') items"
  by (induction items arbitrary: rows) auto

section \<open>The result of extract_tables\<close>

text \<open>
  Claim C5. When the lines of the text are some lines without \<open>|\<close>, then a block of
  \<open>N \<ge> 2\<close> lines that each contain \<open>|\<close> and each have the same number \<open>k \<ge> 1\<close> of
  non-blank cells, then lines without \<open>|\<close>, \<open>extract_tables\<close> returns exactly one table,
  with \<open>N - 1\<close> row mappings and confidence 0.9 when \<open>N - 1 > 1\<close> and 0.7 otherwise. A text
  with no \<open>|\<close> at all gives no table.
\<close>

theorem extract_tables_well_formed_block:
  "(split_chr 10 content = pre @ block @ post \<and>
    (\<forall>l\<in>set pre \<union> set post. 124 \<notin> set l) \<and>
    (\<forall>l\<in>set block. 124 \<in> set l \<and> length (table_cells l) = k) \<and>
    1 \<le> k \<and> 2 \<le> length block
    \<longrightarrow> (\<exists>t. fst (extract_tables self content url) = [t] \<and>
             length (structured_data t) = length block - 1 \<and>
             confidence t = (if length block - 1 > 1 then 0.9 else 0.7))) \<and>
   (124 \<notin> set content \<longrightarrow> fst (extract_tables self content url) = [])"
proof (intro conjI impI)
  assume h: "split_chr 10 content = pre @ block @ post \<and>
    (\<forall>l\<in>set pre \<union> set post. 124 \<notin> set l) \<and>
    (\<forall>l\<in>set block. 124 \<in> set l \<and> length (table_cells l) = k) \<and>
    1 \<le> k \<and> 2 \<le> length block"
  then obtain first second others where blk: "block = first # second # others"
    by (cases block; cases "tl block") auto
  from h have pre: "\<forall>l\<in>set pre. 124 \<notin> set l" and post: "\<forall>l\<in>set post. 124 \<notin> set l"
    and pipes: "\<forall>l\<in>set block. 124 \<in> set l" by auto
  have "lines_loop url (pre @ block @ post) [] [] = lines_loop url (block @ post) [] []"
    using pre by (rule lines_loop_skip_pre)
  also have "\<dots> = lines_loop url post block []"
    using lines_loop_block [OF pipes, of url post "[]" "[]"] by simp
  also have "\<dots> = flush_table block url []"
    using post blk by (intro lines_loop_after_block) auto
  finally have tabs: "fst (extract_tables self content url) = flush_table block url []"
    using h by (simp add: extract_tables_def Let_def)
  have hdr: "length (table_cells first) = k" using h blk by simp
  have "\<forall>l\<in>set (second # others).
          table_cells l \<noteq> [] \<and> length (table_cells first) \<le> length (table_cells l)"
    using h blk hdr by auto
  then have rows: "rows_loop (table_cells first) (second # others) [] =
      map (\<lambda>l. row_data_loop (table_cells first) (table_cells l) []) (second # others)"
    using rows_loop_all [of "second # others" "table_cells first" "[]"] by simp
  show "\<exists>t. fst (extract_tables self content url) = [t] \<and>
             length (structured_data t) = length block - 1 \<and>
             confidence t = (if length block - 1 > 1 then 0.9 else 0.7)"
    unfolding tabs flush_table_def parse_table_def blk
    by (simp add: rows Let_def del: rows_loop.simps)
next
  assume h: "124 \<notin> set content"
  have "\<forall>l\<in>set (split_chr 10 content). 124 \<notin> set l"
    using split_chr_subset [of 10 content] h by blast
  then show "fst (extract_tables self content url) = []"
    by (simp add: extract_tables_def Let_def lines_loop_no_pipe)
qed


theorem extract_tables_well_formed_block_witness:
  "(\<exists>t. fst (extract_tables \<lparr>extracted_data = []\<rparr>
            (ascii ''x'' @ [10] @ ascii ''h|g'' @ [10] @ ascii ''a|b'' @ [10] @ ascii ''c|d'' @ [10] @ ascii ''y'') []) = [t] \<and>
        length (structured_data t) = 2 \<and> confidence t = 0.9) \<and>
   fst (extract_tables \<lparr>extracted_data = []\<rparr> (ascii ''no table'') []) = []"
proof -
  let ?c = "ascii ''x'' @ [10] @ ascii ''h|g'' @ [10] @ ascii ''a|b'' @ [10] @ ascii ''c|d'' @ [10] @ ascii ''y''"
  let ?block = "[ascii ''h|g'', ascii ''a|b'', ascii ''c|d'']"
  have split: "split_chr 10 ?c = [ascii ''x''] @ ?block @ [ascii ''y'']"
    by simp
  have outside: "\<forall>l\<in>set [ascii ''x''] \<union> set [ascii ''y'']. 124 \<notin> set l"
    by simp
  have inside: "\<forall>l\<in>set ?block. 124 \<in> set l \<and> length (table_cells l) = 2"
    by (simp add: table_cells_def strip_def is_space_def)
  have nopipe: "124 \<notin> set (ascii ''no table'')"
    by simp
  from extract_tables_well_formed_block
         [of ?c "[ascii ''x'']" ?block "[ascii ''y'']" 2 "\<lparr>extracted_data = []\<rparr>" "[]"]
       split outside inside
  have a: "\<exists>t. fst (extract_tables \<lparr>extracted_data = []\<rparr> ?c []) = [t] \<and>
        length (structured_data t) = 2 \<and> confidence t = 0.9"
    by (auto simp: numeral_2_eq_2)
  from extract_tables_well_formed_block
         [of "ascii ''no table''" "[]" "[]" "[]" 0 "\<lparr>extracted_data = []\<rparr>" "[]"] nopipe
  have b: "fst (extract_tables \<lparr>extracted_data = []\<rparr> (ascii ''no table'') []) = []"
    by blast
  from a b show ?thesis by blast
qed

section \<open>The result of generate_data_table\<close>

text \<open>
  Claim C8. \<open>generate_data_table\<close> of an empty list is the empty string. Of a non-empty
  list it is a header row over the columns, a separator row with one \<open>---\<close> per column,
  and one row per record, the \<open>i\<close>-th row rendering the \<open>i\<close>-th record with the empty string
  for a key the record lacks; with no column list given, the columns are the keys of the
  first record in their order.
\<close>

theorem generate_data_table_layout:
  "generate_data_table py_str [] columns_arg = [] \<and>
   (data_list \<noteq> [] \<longrightarrow>
      (let columns = (case columns_arg of None \<Rightarrow> map fst (hd data_list) | Some cs \<Rightarrow> cs) in
       \<exists>rows.
         generate_data_table py_str data_list columns_arg =
           (ascii ''| '' @ join (ascii '' | '') columns @ ascii '' |'') @ [10] @
           (ascii ''| '' @ join (ascii '' | '') (replicate (length columns) (ascii ''---'')) @ ascii '' |'') @ [10] @
           join [10] rows \<and>
         length rows = length data_list \<and>
         (\<forall>i<length data_list.
            rows ! i =
              ascii ''| '' @
              join (ascii '' | '')
                (map (\<lambda>col. case map_of (data_list ! i) col of None \<Rightarrow> [] | Some v \<Rightarrow> py_str v) columns) @
              ascii '' |'')))"
proof (intro conjI impI)
  show "generate_data_table py_str [] columns_arg = []"
    by (simp add: generate_data_table_def)
next
  assume ne: "data_list \<noteq> []"
  then obtain first others where dl: "data_list = first # others"
    by (cases data_list) auto
  define columns where "columns = (case columns_arg of None \<Rightarrow> map fst (hd data_list) | Some cs \<Rightarrow> cs)"
  define rows where "rows = map (\<lambda>item. ascii ''| '' @ join (ascii '' | '') (map (cell_text py_str item) columns) @ ascii '' |'') data_list"
  have cols: "columns = (case columns_arg of None \<Rightarrow> map fst first | Some cs \<Rightarrow> cs)"
    by (simp add: columns_def dl split: option.splits)
  have loop: "table_rows_loop py_str columns data_list [] = rows"
    by (simp add: table_rows_loop_map rows_def)
  have out: "generate_data_table py_str data_list columns_arg =
           (ascii ''| '' @ join (ascii '' | '') columns @ ascii '' |'') @ [10] @
           (ascii ''| '' @ join (ascii '' | '') (replicate (length columns) (ascii ''---'')) @ ascii '' |'') @ [10] @
           join [10] rows"
    unfolding generate_data_table_def dl list.case Let_def cols [symmetric] loop [unfolded dl]
    by simp
  have len: "length rows = length data_list"
    by (simp add: rows_def)
  have each: "\<forall>i<length data_list.
            rows ! i =
              ascii ''| '' @
              join (ascii '' | '')
                (map (\<lambda>col. case map_of (data_list ! i) col of None \<Rightarrow> [] | Some v \<Rightarrow> py_str v) columns) @
              ascii '' |''"
    by (simp add: rows_def cell_text_def [abs_def])
  show "let columns = (case columns_arg of None \<Rightarrow> map fst (hd data_list) | Some cs \<Rightarrow> cs) in
       \<exists>rows.
         generate_data_table py_str data_list columns_arg =
           (ascii ''| '' @ join (ascii '' | '') columns @ ascii '' |'') @ [10] @
           (ascii ''| '' @ join (ascii '' | '') (replicate (length columns) (ascii ''---'')) @ ascii '' |'') @ [10] @
           join [10] rows \<and>
         length rows = length data_list \<and>
         (\<forall>i<length data_list.
            rows ! i =
              ascii ''| '' @
              join (ascii '' | '')
                (map (\<lambda>col. case map_of (data_list ! i) col of None \<Rightarrow> [] | Some v \<Rightarrow> py_str v) columns) @
              ascii '' |'')"
    unfolding Let_def columns_def [symmetric]
    using out len each by blast
qed

theorem generate_data_table_layout_witness:
  "generate_data_table id [] None = [] \<and>
   (\<exists>rows.
      generate_data_table id
        [[(ascii ''a'', ascii ''1''), (ascii ''b'', ascii ''2'')], [(ascii ''b'', ascii ''3'')]] None =
        ascii ''| a | b |'' @ [10] @ ascii ''| --- | --- |'' @ [10] @ join [10] rows \<and>
      length rows = 2 \<and>
      rows ! 0 = ascii ''| 1 | 2 |'' \<and>
      rows ! 1 = ascii ''|  | 3 |'')"
proof -
  let ?d = "[[(ascii ''a'', ascii ''1''), (ascii ''b'', ascii ''2'')], [(ascii ''b'', ascii ''3'')]]"
  have ne: "?d \<noteq> []" by simp
  from generate_data_table_layout [of id None ?d] ne
  obtain rows where
    h: "generate_data_table id ?d None =
        ascii ''| a | b |'' @ [10] @ ascii ''| --- | --- |'' @ [10] @ join [10] rows"
    and l: "length rows = 2"
    and e0: "rows ! 0 = ascii ''| 1 | 2 |''"
    and e1: "rows ! 1 = ascii ''|  | 3 |''"
    by (auto simp: Let_def numeral_2_eq_2 All_less_Suc)
  have z: "generate_data_table id [] None = []"
    using generate_data_table_layout [of id None "[]"] by simp
  from h l e0 e1 z show ?thesis by blast
qed


section \<open>Lemmas on the loops of extract_statistics\<close>

lemma percentage_loop_map:
  "percentage_loop content ms acc = acc @ map (percentage_statistic content) ms"
  by (induction ms arbitrary: acc) auto

lemma number_loop_map_filter:
  "number_loop content ms acc = acc @ List.map_filter (large_number_statistic content) ms"
  by (induction ms arbitrary: acc) (auto simp: List.map_filter_simps split: option.splits)

lemma extract_statistics_passes:
  "extract_statistics content url = percentage_pass content @ large_number_pass content"
  by (simp add: extract_statistics_def percentage_pass_def large_number_pass_def
        percentage_loop_map number_loop_map_filter)

lemma large_number_pass_members:
  "s \<in> set (large_number_pass content) \<Longrightarrow> \<exists>mt. large_number_statistic content mt = Some s"
  by (auto simp: large_number_pass_def number_loop_map_filter List.map_filter_def)

lemma percentage_pass_members:
  "s \<in> set (percentage_pass content) \<Longrightarrow> \<exists>mt. s = percentage_statistic content mt"
  by (auto simp: percentage_pass_def percentage_loop_map)

lemma large_number_statistic_fields:
  "large_number_statistic content mt = Some s \<Longrightarrow>
   (\<exists>v w. s_value s = Number v \<and> float_ge v 10000 \<and> s_unit s = unit_of w) \<and> s_confidence s = 0.75"
  by (auto simp: large_number_statistic_def Let_def split: if_splits option.splits)

lemma percentage_statistic_fields:
  "s_confidence (percentage_statistic content mt) = 0.8 \<and>
   s_value (percentage_statistic content mt) = Text (group1_text content mt)"
  by (simp add: percentage_statistic_def Let_def split: option.splits)

lemma str_in_last: "str_in [a, b] w \<Longrightarrow> str_in [b] w"
proof (induction w)
  case Nil
  then show ?case by simp
next
  case (Cons c cs)
  then show ?case by (cases cs) auto
qed

lemma unit_of_cases: "unit_of w = [] \<or> unit_of w = [20159, 20803] \<or> unit_of w = [19975, 20803]"
  using str_in_last [of 30334 19975 w] str_in_last [of 21315 19975 w]
  by (auto simp: unit_of_def)

section \<open>Lemmas on the loops of extract_tables and extract_key_metrics\<close>

lemma parse_table_confidence:
  "parse_table ls url = Some t \<Longrightarrow> 0 \<le> confidence t \<and> confidence t \<le> 1"
  by (auto simp: parse_table_def Let_def split: list.splits if_splits)

lemma flush_table_confidence:
  "\<forall>t\<in>set tables. 0 \<le> confidence t \<and> confidence t \<le> 1 \<Longrightarrow>
   \<forall>t\<in>set (flush_table cur url tables). 0 \<le> confidence t \<and> confidence t \<le> 1"
  by (auto simp: flush_table_def dest: parse_table_confidence split: option.splits)

lemma lines_loop_confidence:
  "\<forall>t\<in>set tables. 0 \<le> confidence t \<and> confidence t \<le> 1 \<Longrightarrow>
   \<forall>t\<in>set (lines_loop url ls cur tables). 0 \<le> confidence t \<and> confidence t \<le> 1"
proof (induction ls arbitrary: cur tables)
  case Nil
  then show ?case using flush_table_confidence [of tables cur url] by simp
next
  case (Cons l ls)
  have f: "\<forall>t\<in>set (flush_table cur url tables). 0 \<le> confidence t \<and> confidence t \<le> 1"
    using Cons.prems by (rule flush_table_confidence)
  show ?case
  proof (cases "124 \<in> set l")
    case True
    then show ?thesis using Cons.IH [OF Cons.prems, of "cur @ [l]"] by simp
  next
    case False
    show ?thesis
    proof (cases "cur = []")
      case True
      with False show ?thesis using Cons.IH [OF Cons.prems, of "[]"] by simp
    next
      case ne: False
      with False show ?thesis using Cons.IH [OF f, of "[]"] by simp
    qed
  qed
qed

lemma metric_results_confidence:
  "metric_results lib content metric = Inr new \<Longrightarrow>
   \<forall>r\<in>set new. 0 \<le> k_confidence r \<and> k_confidence r \<le> 1"
  by (auto simp: metric_results_def Let_def found_def split: sum.splits option.splits)

lemma metrics_loop_confidence:
  "\<forall>r\<in>set results. 0 \<le> k_confidence r \<and> k_confidence r \<le> 1 \<Longrightarrow>
   metrics_loop lib content names results = Inr rs \<Longrightarrow>
   \<forall>r\<in>set rs. 0 \<le> k_confidence r \<and> k_confidence r \<le> 1"
proof (induction names arbitrary: results)
  case Nil
  then show ?case by simp
next
  case (Cons m ms)
  from Cons.prems(2) obtain new where
    a: "metric_results lib content m = Inr new" and
    b: "metrics_loop lib content ms (results @ new) = Inr rs"
    by (auto split: sum.splits)
  have "\<forall>r\<in>set (results @ new). 0 \<le> k_confidence r \<and> k_confidence r \<le> 1"
    using Cons.prems(1) metric_results_confidence [OF a] by auto
  from Cons.IH [OF this b] show ?case .
qed

section \<open>Lemmas on the loop that removes repeated dates\<close>

lemma unique_loop_acc:
  "unique_loop xs seen (acc @ acc') = acc @ unique_loop xs seen acc'"
  by (induction xs arbitrary: seen acc') auto

lemma unique_loop_Cons:
  "unique_loop (x # xs) seen [] =
     (if e_date x \<notin> seen then x # unique_loop xs (insert (e_date x) seen) []
      else unique_loop xs seen [])"
  using unique_loop_acc [of xs "insert (e_date x) seen" "[x]" "[]"] by simp

lemma unique_loop_subset: "set (unique_loop xs seen []) \<subseteq> set xs"
proof (induction xs arbitrary: seen)
  case Nil
  show ?case by simp
next
  case (Cons x xs)
  show ?case
    using Cons.IH [of seen] Cons.IH [of "insert (e_date x) seen"]
    by (auto simp: unique_loop_Cons simp del: unique_loop.simps)
qed

lemma unique_loop_dates:
  "e_date ` set (unique_loop xs seen []) = e_date ` set xs - seen"
proof (induction xs arbitrary: seen)
  case Nil
  show ?case by simp
next
  case (Cons x xs)
  show ?case
    using Cons.IH [of seen] Cons.IH [of "insert (e_date x) seen"]
    by (auto simp: unique_loop_Cons simp del: unique_loop.simps)
qed

lemma unique_loop_distinct: "distinct (map e_date (unique_loop xs seen []))"
proof (induction xs arbitrary: seen)
  case Nil
  show ?case by simp
next
  case (Cons x xs)
  have "e_date x \<notin> e_date ` set (unique_loop xs (insert (e_date x) seen) [])"
    by (simp add: unique_loop_dates)
  then show ?case
    using Cons.IH [of seen] Cons.IH [of "insert (e_date x) seen"]
    by (simp add: unique_loop_Cons del: unique_loop.simps)
qed

lemma unique_loop_sorted:
  "sorted (map e_position xs) \<Longrightarrow> sorted (map e_position (unique_loop xs seen []))"
proof (induction xs arbitrary: seen)
  case Nil
  show ?case by simp
next
  case (Cons x xs)
  from Cons.prems have s: "sorted (map e_position xs)"
    and le: "\<forall>y\<in>set xs. e_position x \<le> e_position y" by auto
  have "\<forall>y\<in>set (unique_loop xs (insert (e_date x) seen) []). e_position x \<le> e_position y"
    using le unique_loop_subset [of xs "insert (e_date x) seen"] by blast
  then show ?case
    using Cons.IH [OF s, of seen] Cons.IH [OF s, of "insert (e_date x) seen"]
    by (simp add: unique_loop_Cons del: unique_loop.simps)
qed

lemma unique_loop_first:
  "sorted (map e_position xs) \<Longrightarrow> e \<in> set (unique_loop xs seen []) \<Longrightarrow> e' \<in> set xs \<Longrightarrow>
   e_date e' = e_date e \<Longrightarrow> e_position e \<le> e_position e'"
proof (induction xs arbitrary: seen)
  case Nil
  then show ?case by simp
next
  case (Cons x xs)
  from Cons.prems(1) have s: "sorted (map e_position xs)"
    and le: "\<forall>y\<in>set xs. e_position x \<le> e_position y" by auto
  show ?case
  proof (cases "e_date x \<in> seen")
    case True
    with Cons.prems(2) have m: "e \<in> set (unique_loop xs seen [])"
      by (simp add: unique_loop_Cons del: unique_loop.simps)
    then have "e_date e \<notin> seen" using unique_loop_dates [of xs seen] by blast
    with True Cons.prems(3,4) have "e' \<in> set xs" by auto
    from Cons.IH [OF s m this Cons.prems(4)] show ?thesis .
  next
    case False
    with Cons.prems(2) have
      "e = x \<or> e \<in> set (unique_loop xs (insert (e_date x) seen) [])"
      by (simp add: unique_loop_Cons del: unique_loop.simps)
    then show ?thesis
    proof
      assume "e = x"
      with le Cons.prems(3) show ?thesis by auto
    next
      assume m: "e \<in> set (unique_loop xs (insert (e_date x) seen) [])"
      then have "e_date e \<notin> insert (e_date x) seen"
        using unique_loop_dates [of xs "insert (e_date x) seen"] by blast
      with Cons.prems(3,4) have "e' \<in> set xs" by auto
      from Cons.IH [OF s m this Cons.prems(4)] show ?thesis .
    qed
  qed
qed


lemma unique_loop_find:
  "e \<in> set (unique_loop xs seen []) \<Longrightarrow> find (\<lambda>x. e_date x = e_date e) xs = Some e"
proof (induction xs arbitrary: seen)
  case Nil
  then show ?case by simp
next
  case (Cons x xs)
  show ?case
  proof (cases "e_date x \<in> seen")
    case True
    with Cons.prems have m: "e \<in> set (unique_loop xs seen [])"
      by (simp add: unique_loop_Cons del: unique_loop.simps)
    then have "e_date e \<notin> seen" using unique_loop_dates [of xs seen] by blast
    with True have "e_date x \<noteq> e_date e" by auto
    with Cons.IH [OF m] show ?thesis by simp
  next
    case False
    with Cons.prems have
      "e = x \<or> e \<in> set (unique_loop xs (insert (e_date x) seen) [])"
      by (simp add: unique_loop_Cons del: unique_loop.simps)
    then show ?thesis
    proof
      assume "e = x"
      then show ?thesis by simp
    next
      assume m: "e \<in> set (unique_loop xs (insert (e_date x) seen) [])"
      then have "e_date e \<notin> insert (e_date x) seen"
        using unique_loop_dates [of xs "insert (e_date x) seen"] by blast
      then have "e_date x \<noteq> e_date e" by auto
      with Cons.IH [OF m] show ?thesis by simp
    qed
  qed
qed

section \<open>Rounding to a double\<close>

lemma pow2_powr: "pow2 e = 2 powr (of_int e)"
  by (simp add: pow2_def powr_real_of_int inverse_eq_divide)

text \<open>The exponent of the last place, for a number between two powers of two.\<close>

lemma round_magnitude_between:
  assumes "0 < x" and "pow2 k \<le> x" and "x < pow2 (k + 1)"
  shows "round_magnitude x =
     (let e = max (- 1074) (k - 52);
          y = of_int (round_half_even (x / pow2 e)) * pow2 e
      in if 2 ^ 1024 \<le> y then Infinity else Finite y)"
proof -
  have "\<lfloor>log 2 x\<rfloor> = k"
    using assms floor_log_eq_powr_iff [of x 2 k] by (simp add: pow2_powr)
  then show ?thesis
    using assms(1) by (simp add: round_magnitude_def)
qed

lemma round_magnitude_700: "round_magnitude 700 = Finite 700"
  using round_magnitude_between [of 700 9]
  by (simp add: pow2_def round_half_even_def Let_def)

lemma round_magnitude_12345: "round_magnitude 12345 = Finite 12345"
  using round_magnitude_between [of 12345 13]
  by (simp add: pow2_def round_half_even_def Let_def)

text \<open>\<open>float('9999.9999999999999')\<close> is \<open>10000.0\<close>.\<close>

lemma round_magnitude_boundary:
  "round_magnitude (99999999999999999 / 10000000000000) = Finite 10000"
  using round_magnitude_between [of "99999999999999999 / 10000000000000" 13]
  by (simp add: pow2_def round_half_even_def Let_def)

text \<open>From \<open>2 ^ 1024\<close> on, \<open>float\<close> gives infinity: \<open>float('1' + '0' * 400)\<close> is \<open>inf\<close>.\<close>

lemma round_half_even_ge_floor: "\<lfloor>q\<rfloor> \<le> round_half_even q"
  by (simp add: round_half_even_def Let_def)

lemma round_magnitude_overflow:
  assumes big: "2 ^ 1024 \<le> x"
  shows "round_magnitude x = Infinity"
proof -
  define k where "k = \<lfloor>log 2 x\<rfloor>"
  have pos: "0 < x"
    using big by (rule less_le_trans [rotated]) simp
  have low: "2 powr (of_int k) \<le> x"
    using floor_log_eq_powr_iff [of x 2 k] pos by (simp add: k_def)
  have up: "x < 2 powr (of_int k + 1)"
    using floor_log_eq_powr_iff [of x 2 k] pos by (simp add: k_def)
  have "(2::real) powr 1024 \<le> x"
    using big by simp
  with up have "(2::real) powr 1024 < 2 powr (of_int k + 1)"
    by linarith
  then have "(1024::real) < of_int k + 1"
    by (rule powr_less_cancel) simp
  then have "of_int (1023::int) < (of_int k :: real)"
    by simp
  then have "1023 < k"
    by (simp only: of_int_less_iff)
  then have k_big: "1024 \<le> k"
    by simp
  then have e: "max (- 1074) (k - 52) = k - 52"
    by simp
  have p: "pow2 (k - 52) = 2 powr (of_int k) / 2 ^ 52"
    by (simp add: pow2_powr powr_diff)
  have ppos: "0 < pow2 (k - 52)"
    by (simp add: pow2_powr)
  have "2 ^ 52 \<le> x / pow2 (k - 52)"
    using low by (simp add: p field_simps)
  then have "(2 ^ 52 :: int) \<le> \<lfloor>x / pow2 (k - 52)\<rfloor>"
    by (simp add: le_floor_iff)
  then have m: "(2 ^ 52 :: int) \<le> round_half_even (x / pow2 (k - 52))"
    using round_half_even_ge_floor [of "x / pow2 (k - 52)"] by linarith
  then have "(2 ^ 52 :: real) \<le> of_int (round_half_even (x / pow2 (k - 52)))"
    by (metis of_int_le_iff of_int_numeral of_int_power)
  then have "2 ^ 52 * pow2 (k - 52) \<le> of_int (round_half_even (x / pow2 (k - 52))) * pow2 (k - 52)"
    using ppos by (simp add: mult_right_mono)
  moreover have "2 ^ 52 * pow2 (k - 52) = 2 powr (of_int k)"
    by (simp add: p)
  moreover have "(2::real) ^ 1024 \<le> 2 powr (of_int k)"
    using k_big powr_mono [of 1024 "of_int k" 2] by simp
  ultimately have "2 ^ 1024 \<le> of_int (round_half_even (x / pow2 (k - 52))) * pow2 (k - 52)"
    by linarith
  then show ?thesis
    using pos by (simp add: round_magnitude_def Let_def k_def [symmetric] e)
qed

lemma round_magnitude_huge: "round_magnitude (10 ^ 400) = Infinity"
proof -
  have "(2::real) ^ 1024 \<le> 16 ^ 256" by simp
  also have "\<dots> \<le> 100 ^ 200" by (simp add: power_mono)
  finally have "(2::real) ^ 1024 \<le> 10 ^ 400" by simp
  then show ?thesis by (rule round_magnitude_overflow)
qed

section \<open>The extractor on the sample texts\<close>

lemmas stat_eval =
  large_number_statistic_def percentage_statistic_def py_float_def unsigned_float_def
  digits_value_def unit_of_def name_pattern_def float_ge_def round_magnitude_700
  round_magnitude_12345

lemma numbers_700:
  "re_finditer NUMBER_PATTERN text_700 = [\<lparr>m_start = 6, m_end = 9, m_span1 = Some (6, 9)\<rparr>]"
  by (simp add: text_700_def NUMBER_PATTERN_def re_eval text_eval)

lemma percentages_700: "re_finditer PERCENTAGE_PATTERN text_700 = []"
  by (simp add: text_700_def PERCENTAGE_PATTERN_def re_eval text_eval)

lemma statistics_700: "extract_statistics text_700 url = []"
  by (simp add: extract_statistics_def numbers_700 percentages_700)
     (simp add: text_700_def stat_eval text_eval)

lemma numbers_12345:
  "re_finditer NUMBER_PATTERN text_12345 =
     [\<lparr>m_start = 2, m_end = 8, m_span1 = Some (2, 8)\<rparr>,
      \<lparr>m_start = 11, m_end = 16, m_span1 = Some (11, 16)\<rparr>]"
  by (simp add: text_12345_def NUMBER_PATTERN_def re_eval text_eval)

lemma percentages_12345:
  "re_finditer PERCENTAGE_PATTERN text_12345 = [\<lparr>m_start = 11, m_end = 16, m_span1 = Some (11, 16)\<rparr>]"
  by (simp add: text_12345_def PERCENTAGE_PATTERN_def re_eval text_eval)

lemma large_12345:
  "large_number_pass text_12345 =
     [\<lparr>s_name = [38144, 37327], s_value = Number (Finite 12345), s_unit = [19975, 20803],
       s_period = [], s_source = [], s_confidence = 0.75\<rparr>]"
  by (simp add: large_number_pass_def numbers_12345)
     (simp add: text_12345_def stat_eval text_eval re_eval)

lemma large_statistic_12345:
  "large_number_statistic text_12345 \<lparr>m_start = 2, m_end = 8, m_span1 = Some (2, 8)\<rparr> =
     Some \<lparr>s_name = [38144, 37327], s_value = Number (Finite 12345), s_unit = [19975, 20803],
            s_period = [], s_source = [], s_confidence = 0.75\<rparr>"
  by (simp add: text_12345_def stat_eval text_eval re_eval)

lemma no_name_12345:
  "re_search (name_pattern (group1_text text_12345 \<lparr>m_start = 11, m_end = 16, m_span1 = Some (11, 16)\<rparr>))
     (context_of text_12345 \<lparr>m_start = 11, m_end = 16, m_span1 = Some (11, 16)\<rparr> 50 50) = None"
  by (simp add: text_12345_def stat_eval text_eval re_eval)

lemma numbers_bare:
  "re_finditer NUMBER_PATTERN text_bare = [\<lparr>m_start = 0, m_end = 6, m_span1 = Some (0, 6)\<rparr>]"
  by (simp add: text_bare_def NUMBER_PATTERN_def re_eval text_eval)

lemma no_name_bare:
  "re_search (name_pattern (take 10 (strip (group1_text text_bare \<lparr>m_start = 0, m_end = 6, m_span1 = Some (0, 6)\<rparr>))))
     (context_of text_bare \<lparr>m_start = 0, m_end = 6, m_span1 = Some (0, 6)\<rparr> 50 50) = None"
  by (simp add: text_bare_def stat_eval text_eval re_eval)

lemma metrics_sales:
  "extract_key_metrics lib text_sales [metric_sales] [] =
     Inr [\<lparr>k_metric = metric_sales, k_value = Some (ascii ''120''), k_position = 0, k_confidence = 0.85\<rparr>]"
  by (simp add: extract_key_metrics_def metric_results_def search_with_def metric_sales_def
        text_sales_def re_compile_def forward_tokens_def reverse_tokens_def close_frame_def
        value_regex_def found_def re_eval text_eval)


lemma metrics_dollar:
  "extract_key_metrics dollar_lib text_dollar [metric_dollar] [] =
     Inr [\<lparr>k_metric = metric_dollar, k_value = Some (ascii ''5''), k_position = 0, k_confidence = 0.8\<rparr>]"
  by (simp add: extract_key_metrics_def metric_results_def search_with_def dollar_lib_def
        metric_dollar_def text_dollar_def re_compile_def forward_tokens_def reverse_tokens_def
        forward_text_def reverse_text_def value_text_def same_sentence_text_def found_def
        group1_def slice_def)

lemma large_boundary:
  "large_number_pass text_boundary =
     [\<lparr>s_name = ascii ''ab'', s_value = Number (Finite 10000), s_unit = [],
       s_period = [], s_source = [], s_confidence = 0.75\<rparr>]"
  by (simp add: large_number_pass_def text_boundary_def NUMBER_PATTERN_def stat_eval text_eval
        re_eval round_magnitude_boundary)

lemma tables_sample:
  "fst (extract_tables \<lparr>extracted_data = []\<rparr> text_table []) =
     [\<lparr>content_type = ascii ''table'', raw_content = ascii ''h|g'' @ [10] @ ascii ''a|b'',
       structured_data = [[(ascii ''h'', ascii ''a''), (ascii ''g'', ascii ''b'')]],
       confidence = 0.7, source_url = [], metadata_headers = [ascii ''h'', ascii ''g''],
       metadata_row_count = 1\<rparr>]"
  by (simp add: text_table_def extract_tables_def flush_table_def parse_table_def
        table_cells_def strip_def is_space_def Let_def)

lemma events_2024:
  "patterns_loop lib text_2024 time_patterns [] =
     Inr [\<lparr>e_date = ascii ''2024'' @ [24180] @ ascii ''3'' @ [26376], e_description = text_2024, e_position = 0\<rparr>,
          \<lparr>e_date = ascii ''2024'' @ [24180], e_description = text_2024, e_position = 0\<rparr>]"
  by (simp add: text_2024_def time_patterns_def re_eval text_eval event_pattern_def
        search_with_def compile_class_def in_class_def)

lemma timeline_2024:
  "extract_timeline lib text_2024 [] =
     Inr [\<lparr>e_date = ascii ''2024'' @ [24180] @ ascii ''3'' @ [26376], e_description = text_2024, e_position = 0\<rparr>,
          \<lparr>e_date = ascii ''2024'' @ [24180], e_description = text_2024, e_position = 0\<rparr>]"
  by (simp add: extract_timeline_def events_2024)

lemma events_twice:
  "patterns_loop lib text_twice time_patterns [] =
     Inr [\<lparr>e_date = ascii ''2024'' @ [24180], e_description = text_twice, e_position = 0\<rparr>,
          \<lparr>e_date = ascii ''2024'' @ [24180], e_description = text_twice, e_position = 6\<rparr>]"
  by (simp add: text_twice_def time_patterns_def re_eval text_eval event_pattern_def
        search_with_def compile_class_def in_class_def)

lemma timeline_twice:
  "extract_timeline lib text_twice [] =
     Inr [\<lparr>e_date = ascii ''2024'' @ [24180], e_description = text_twice, e_position = 0\<rparr>]"
  by (simp add: extract_timeline_def events_twice)

lemma timeline_iso_date: "extract_timeline lib text_iso_date url = Inl Bad_character_range"
  by (simp add: text_iso_date_def extract_timeline_def time_patterns_def re_eval text_eval
        event_pattern_def search_with_def compile_class_def in_class_def)

lemma metrics_open_parenthesis:
  "extract_key_metrics lib content [metric_open] url = Inl Missing_parenthesis"
  by (simp add: metric_open_def extract_key_metrics_def metric_results_def search_with_def
        re_compile_def forward_tokens_def close_frame_def)

section \<open>Errors that leave the extractor\<close>

text \<open>
  Claim C1 says that no extraction operation raises. The code does raise:
  \<open>extract_timeline\<close> on the text \<open>2024-03-15\<close>, whose characters \<open>4-0\<close> are read as a
  character range that runs backwards, and \<open>extract_key_metrics\<close> on the metric name \<open>(\<close>,
  for any text, because the name opens a group that the pattern never closes.
\<close>

theorem unescaped_text_raises:
  "extract_timeline lib text_iso_date url = Inl Bad_character_range \<and>
   extract_key_metrics lib content [metric_open] url = Inl Missing_parenthesis"
  using timeline_iso_date metrics_open_parenthesis by blast

theorem unescaped_text_raises_witness:
  "extract_timeline no_lib text_iso_date [] = Inl Bad_character_range \<and>
   extract_key_metrics no_lib text_sales [metric_open] [] = Inl Missing_parenthesis"
  using unescaped_text_raises [of no_lib "[]" text_sales] .

section \<open>The statistics of a text\<close>

text \<open>
  Claim C2 says that \<open>text_700\<close> yields a statistic with the value 700.0 and the unit
  U+4E07 U+5143. It yields none.
\<close>

theorem statistics_700_counterexample:
  "\<not> (\<exists>s\<in>set (extract_statistics text_700 []).
        s_value s = Number (Finite 700) \<and> s_unit s = [19975, 20803])"
  by (simp add: statistics_700)

text \<open>
  Claim C2, amended. For \<open>text_700\<close>, \<open>extract_statistics\<close> returns no statistic at all: the
  text has no percentage, and its one number, 700, is below the threshold 10000 of the
  large-number loop.
\<close>

theorem statistics_700_empty: "extract_statistics text_700 url = []"
  by (rule statistics_700)

theorem statistics_700_empty_witness: "extract_statistics text_700 [] = []"
  using statistics_700_empty [of "[]"] .

text \<open>
  Claim C3. The statistics that \<open>extract_statistics\<close> returns are those of the percentage
  loop, whose values are texts, followed by those of the large-number loop, and every
  statistic of the large-number loop has a numeric value, a float, of at least 10000. A
  token whose float is below 10000 gives no statistic.
\<close>

theorem large_number_values:
  "extract_statistics content url = percentage_pass content @ large_number_pass content \<and>
   (\<forall>s\<in>set (percentage_pass content). \<exists>p. s_value s = Text p) \<and>
   (\<forall>s\<in>set (large_number_pass content). \<exists>v. s_value s = Number v \<and> float_ge v 10000) \<and>
   (\<forall>mt v. py_float (filter (\<lambda>c. c \<noteq> 44) (strip (group1_text content mt))) = Some v \<and>
           \<not> float_ge v 10000
           \<longrightarrow> large_number_statistic content mt = None)"
proof (intro conjI ballI allI impI)
  show "extract_statistics content url = percentage_pass content @ large_number_pass content"
    by (rule extract_statistics_passes)
next
  fix s
  assume "s \<in> set (percentage_pass content)"
  then obtain mt where "s = percentage_statistic content mt"
    using percentage_pass_members by blast
  then show "\<exists>p. s_value s = Text p"
    using percentage_statistic_fields [of content mt] by simp
next
  fix s
  assume "s \<in> set (large_number_pass content)"
  then obtain mt where "large_number_statistic content mt = Some s"
    using large_number_pass_members by blast
  then show "\<exists>v. s_value s = Number v \<and> float_ge v 10000"
    using large_number_statistic_fields by blast
next
  fix mt v
  assume "py_float (filter (\<lambda>c. c \<noteq> 44) (strip (group1_text content mt))) = Some v \<and>
          \<not> float_ge v 10000"
  then show "large_number_statistic content mt = None"
    by (simp add: large_number_statistic_def Let_def)
qed

theorem large_number_values_witness:
  "extract_statistics text_boundary [] = large_number_pass text_boundary \<and>
   (\<exists>s\<in>set (extract_statistics text_boundary []). s_value s = Number (Finite 10000)) \<and>
   (\<exists>s\<in>set (large_number_pass text_12345). \<exists>v. s_value s = Number v \<and> float_ge v 10000) \<and>
   large_number_statistic text_700 \<lparr>m_start = 6, m_end = 9, m_span1 = Some (6, 9)\<rparr> = None"
proof -
  have none: "percentage_pass text_boundary = []"
    by (simp add: percentage_pass_def text_boundary_def PERCENTAGE_PATTERN_def re_eval text_eval)
  from large_number_values [of text_boundary "[]"] none
  have a: "extract_statistics text_boundary [] = large_number_pass text_boundary"
    by simp
  then have b: "\<exists>s\<in>set (extract_statistics text_boundary []). s_value s = Number (Finite 10000)"
    by (simp add: large_boundary)
  from large_number_values [of text_12345 "[]"]
  have c: "\<exists>s\<in>set (large_number_pass text_12345). \<exists>v. s_value s = Number v \<and> float_ge v 10000"
    by (simp add: large_12345)
  have "py_float (filter (\<lambda>c. c \<noteq> 44)
          (strip (group1_text text_700 \<lparr>m_start = 6, m_end = 9, m_span1 = Some (6, 9)\<rparr>))) =
        Some (Finite 700) \<and> \<not> float_ge (Finite 700) 10000"
    by (simp add: text_700_def stat_eval text_eval)
  with large_number_values [of text_700 "[]"]
  have d: "large_number_statistic text_700 \<lparr>m_start = 6, m_end = 9, m_span1 = Some (6, 9)\<rparr> = None"
    by blast
  from a b c d show ?thesis by blast
qed

text \<open>
  Claim C10. The statistics that \<open>extract_statistics\<close> returns are those of the percentage
  loop followed by those of the large-number loop, and the unit of every statistic of
  the large-number loop is empty, U+4EBF U+5143 or U+4E07 U+5143. The two later branches of
  the unit test are never taken: a window that holds U+767E U+4E07 or U+5343 U+4E07 holds
  U+4E07, which is tested before them.
\<close>

theorem large_number_units:
  "extract_statistics content url = percentage_pass content @ large_number_pass content \<and>
   (\<forall>s\<in>set (large_number_pass content).
      s_unit s = [] \<or> s_unit s = [20159, 20803] \<or> s_unit s = [19975, 20803]) \<and>
   (\<forall>window. str_in [30334, 19975] window \<or> str_in [21315, 19975] window \<longrightarrow>
      str_in [19975] window) \<and>
   (\<forall>window. unit_of window \<noteq> [30334, 19975] \<and> unit_of window \<noteq> [21315, 19975])"
proof (intro conjI allI impI ballI)
  show "extract_statistics content url = percentage_pass content @ large_number_pass content"
    by (rule extract_statistics_passes)
next
  fix s
  assume "s \<in> set (large_number_pass content)"
  then obtain mt where "large_number_statistic content mt = Some s"
    using large_number_pass_members by blast
  then obtain w where "s_unit s = unit_of w"
    using large_number_statistic_fields by blast
  then show "s_unit s = [] \<or> s_unit s = [20159, 20803] \<or> s_unit s = [19975, 20803]"
    using unit_of_cases [of w] by simp
next
  fix window
  assume "str_in [30334, 19975] window \<or> str_in [21315, 19975] window"
  then show "str_in [19975] window"
    using str_in_last by blast
next
  fix window
  show "unit_of window \<noteq> [30334, 19975]"
    using unit_of_cases [of window] by auto
  show "unit_of window \<noteq> [21315, 19975]"
    using unit_of_cases [of window] by auto
qed

theorem large_number_units_witness:
  "(\<exists>s\<in>set (large_number_pass text_12345).
      s_unit s = [] \<or> s_unit s = [20159, 20803] \<or> s_unit s = [19975, 20803]) \<and>
   (\<exists>s\<in>set (extract_statistics text_boundary []). s_unit s = []) \<and>
   str_in [19975] [49, 30334, 19975] \<and>
   unit_of [49, 30334, 19975] = [19975, 20803]"
proof -
  have h: "str_in [30334, 19975] [49, 30334, 19975] \<or> str_in [21315, 19975] [49, 30334, 19975]"
    by simp
  from large_number_units [of text_12345 "[]"] h
  have a: "str_in [19975] [49, 30334, 19975]" by blast
  from large_number_units [of text_12345 "[]"]
  have b: "\<exists>s\<in>set (large_number_pass text_12345).
      s_unit s = [] \<or> s_unit s = [20159, 20803] \<or> s_unit s = [19975, 20803]"
    by (simp add: large_12345)
  have none: "percentage_pass text_boundary = []"
    by (simp add: percentage_pass_def text_boundary_def PERCENTAGE_PATTERN_def re_eval text_eval)
  from large_number_units [of text_boundary "[]"] none
  have c: "\<exists>s\<in>set (extract_statistics text_boundary []). s_unit s = []"
    by (simp add: large_boundary)
  have d: "unit_of [49, 30334, 19975] = [19975, 20803]"
    by (simp add: unit_of_def)
  from a b c d show ?thesis by blast
qed

text \<open>
  Claim C6. \<open>extract_statistics\<close> returns one statistic for every match of the percentage
  pattern, in order, followed by one statistic for every match of the number pattern
  that gives one. The statistic of a percentage match has confidence 0.8 and the matched
  percentage as value, and an empty name when the name search finds nothing. A number
  match gives a statistic only when its name search finds a name, and then with
  confidence 0.75.
\<close>

theorem statistics_emission:
  "extract_statistics content url =
     map (percentage_statistic content) (re_finditer PERCENTAGE_PATTERN content) @
     List.map_filter (large_number_statistic content) (re_finditer NUMBER_PATTERN content) \<and>
   (\<forall>mt. s_confidence (percentage_statistic content mt) = 0.8 \<and>
         s_value (percentage_statistic content mt) = Text (group1_text content mt) \<and>
         (re_search (name_pattern (group1_text content mt)) (context_of content mt 50 50) = None
            \<longrightarrow> s_name (percentage_statistic content mt) = [])) \<and>
   (\<forall>mt. re_search (name_pattern (take 10 (strip (group1_text content mt))))
           (context_of content mt 50 50) = None
         \<longrightarrow> large_number_statistic content mt = None) \<and>
   (\<forall>mt stat. large_number_statistic content mt = Some stat \<longrightarrow> s_confidence stat = 0.75)"
proof (intro conjI allI impI)
  show "extract_statistics content url =
     map (percentage_statistic content) (re_finditer PERCENTAGE_PATTERN content) @
     List.map_filter (large_number_statistic content) (re_finditer NUMBER_PATTERN content)"
    by (simp add: extract_statistics_def percentage_loop_map number_loop_map_filter)
next
  fix mt
  show "s_confidence (percentage_statistic content mt) = 0.8"
    using percentage_statistic_fields by blast
  show "s_value (percentage_statistic content mt) = Text (group1_text content mt)"
    using percentage_statistic_fields by blast
next
  fix mt
  assume "re_search (name_pattern (group1_text content mt)) (context_of content mt 50 50) = None"
  then show "s_name (percentage_statistic content mt) = []"
    by (simp add: percentage_statistic_def Let_def)
next
  fix mt
  assume "re_search (name_pattern (take 10 (strip (group1_text content mt))))
           (context_of content mt 50 50) = None"
  then show "large_number_statistic content mt = None"
    by (simp add: large_number_statistic_def Let_def split: option.splits)
next
  fix mt stat
  assume "large_number_statistic content mt = Some stat"
  then show "s_confidence stat = 0.75"
    using large_number_statistic_fields by blast
qed

theorem statistics_emission_witness:
  "extract_statistics text_12345 [] =
     [\<lparr>s_name = [], s_value = Text (ascii ''35.2%''), s_unit = [], s_period = [],
       s_source = [], s_confidence = 0.8\<rparr>,
      \<lparr>s_name = [38144, 37327], s_value = Number (Finite 12345), s_unit = [19975, 20803],
       s_period = [], s_source = [], s_confidence = 0.75\<rparr>] \<and>
   s_name (percentage_statistic text_12345 \<lparr>m_start = 11, m_end = 16, m_span1 = Some (11, 16)\<rparr>) = [] \<and>
   extract_statistics text_bare [] = []"
proof -
  let ?p = "\<lparr>m_start = 11, m_end = 16, m_span1 = Some (11, 16)\<rparr>"
  let ?n = "\<lparr>m_start = 2, m_end = 8, m_span1 = Some (2, 8)\<rparr>"
  let ?b = "\<lparr>m_start = 0, m_end = 6, m_span1 = Some (0, 6)\<rparr>"
  note t = statistics_emission [of text_12345 "[]"]
  note u = statistics_emission [of text_bare "[]"]
  from t no_name_12345 have name: "s_name (percentage_statistic text_12345 ?p) = []"
    by blast
  from t have "s_confidence (percentage_statistic text_12345 ?p) = 0.8"
    and "s_value (percentage_statistic text_12345 ?p) = Text (group1_text text_12345 ?p)"
    by blast+
  with name have pct: "percentage_statistic text_12345 ?p =
      \<lparr>s_name = [], s_value = Text (ascii ''35.2%''), s_unit = [], s_period = [],
       s_source = [], s_confidence = 0.8\<rparr>"
    by (simp add: percentage_statistic_def no_name_12345 Let_def)
       (simp add: text_12345_def text_eval)
  have second: "large_number_statistic text_12345 ?p = None"
    by (simp add: large_number_statistic_def text_12345_def text_eval)
  from t have a: "extract_statistics text_12345 [] =
     [\<lparr>s_name = [], s_value = Text (ascii ''35.2%''), s_unit = [], s_period = [],
       s_source = [], s_confidence = 0.8\<rparr>,
      \<lparr>s_name = [38144, 37327], s_value = Number (Finite 12345), s_unit = [19975, 20803],
       s_period = [], s_source = [], s_confidence = 0.75\<rparr>]"
    by (simp add: percentages_12345 numbers_12345 pct large_statistic_12345 second
          List.map_filter_simps)
  from u no_name_bare have "large_number_statistic text_bare ?b = None"
    by blast
  moreover have "re_finditer PERCENTAGE_PATTERN text_bare = []"
    by (simp add: text_bare_def PERCENTAGE_PATTERN_def re_eval text_eval)
  ultimately have b: "extract_statistics text_bare [] = []"
    using u by (simp add: numbers_bare List.map_filter_simps)
  from a name b show ?thesis by blast
qed

section \<open>Confidence values\<close>

text \<open>
  Claim C9. Every table of \<open>extract_tables\<close>, every statistic of \<open>extract_statistics\<close> and
  every record that \<open>extract_key_metrics\<close> returns has a confidence between 0 and 1,
  whatever \<open>re.search\<close> does on the patterns that are left to \<open>lib\<close>.
\<close>

theorem confidence_in_unit_interval:
  "(\<forall>t\<in>set (fst (extract_tables self content url)). 0 \<le> confidence t \<and> confidence t \<le> 1) \<and>
   (\<forall>s\<in>set (extract_statistics content url). 0 \<le> s_confidence s \<and> s_confidence s \<le> 1) \<and>
   (\<forall>results. extract_key_metrics lib content metric_names url = Inr results \<longrightarrow>
      (\<forall>r\<in>set results. 0 \<le> k_confidence r \<and> k_confidence r \<le> 1))"
proof (intro conjI allI impI)
  show "\<forall>t\<in>set (fst (extract_tables self content url)). 0 \<le> confidence t \<and> confidence t \<le> 1"
    using lines_loop_confidence [of "[]" url "split_chr 10 content" "[]"]
    by (simp add: extract_tables_def Let_def)
next
  show "\<forall>s\<in>set (extract_statistics content url). 0 \<le> s_confidence s \<and> s_confidence s \<le> 1"
  proof
    fix s
    assume "s \<in> set (extract_statistics content url)"
    then consider "s \<in> set (percentage_pass content)" | "s \<in> set (large_number_pass content)"
      by (auto simp: extract_statistics_passes)
    then show "0 \<le> s_confidence s \<and> s_confidence s \<le> 1"
    proof cases
      case 1
      then obtain mt where "s = percentage_statistic content mt"
        using percentage_pass_members by blast
      then show ?thesis using percentage_statistic_fields [of content mt] by simp
    next
      case 2
      then obtain mt where "large_number_statistic content mt = Some s"
        using large_number_pass_members by blast
      then have "s_confidence s = 0.75"
        using large_number_statistic_fields by blast
      then show ?thesis by simp
    qed
  qed
next
  fix results
  assume "extract_key_metrics lib content metric_names url = Inr results"
  then have "metrics_loop lib content metric_names [] = Inr results"
    by (simp add: extract_key_metrics_def)
  then show "\<forall>r\<in>set results. 0 \<le> k_confidence r \<and> k_confidence r \<le> 1"
    using metrics_loop_confidence [of "[]" lib content metric_names results] by simp
qed

theorem confidence_in_unit_interval_witness:
  "(\<exists>t\<in>set (fst (extract_tables \<lparr>extracted_data = []\<rparr> text_table [])).
      0 \<le> confidence t \<and> confidence t \<le> 1) \<and>
   (\<exists>s\<in>set (extract_statistics text_12345 []). 0 \<le> s_confidence s \<and> s_confidence s \<le> 1) \<and>
   (\<exists>s\<in>set (extract_statistics text_boundary []). 0 \<le> s_confidence s \<and> s_confidence s \<le> 1) \<and>
   (\<exists>results. extract_key_metrics no_lib text_sales [metric_sales] [] = Inr results \<and>
      (\<exists>r\<in>set results. 0 \<le> k_confidence r \<and> k_confidence r \<le> 1)) \<and>
   (\<exists>results. extract_key_metrics dollar_lib text_dollar [metric_dollar] [] = Inr results \<and>
      (\<exists>r\<in>set results. 0 \<le> k_confidence r \<and> k_confidence r \<le> 1))"
proof -
  have a: "fst (extract_tables \<lparr>extracted_data = []\<rparr> text_table []) \<noteq> []"
    using tables_sample by simp
  have b: "extract_statistics text_12345 [] \<noteq> []"
    by (simp add: extract_statistics_passes large_12345)
  have b': "extract_statistics text_boundary [] \<noteq> []"
    by (simp add: extract_statistics_passes large_boundary)
  obtain r where c: "extract_key_metrics no_lib text_sales [metric_sales] [] = Inr [r]"
    using metrics_sales by blast
  obtain r' where d: "extract_key_metrics dollar_lib text_dollar [metric_dollar] [] = Inr [r']"
    using metrics_dollar by blast
  from confidence_in_unit_interval [of "\<lparr>extracted_data = []\<rparr>" text_table "[]"] a
  have 1: "\<exists>t\<in>set (fst (extract_tables \<lparr>extracted_data = []\<rparr> text_table [])).
      0 \<le> confidence t \<and> confidence t \<le> 1"
    by (metis list.set_intros(1) neq_Nil_conv)
  from confidence_in_unit_interval [of _ text_12345 "[]"] b
  have 2: "\<exists>s\<in>set (extract_statistics text_12345 []). 0 \<le> s_confidence s \<and> s_confidence s \<le> 1"
    by (metis list.set_intros(1) neq_Nil_conv)
  from confidence_in_unit_interval [of _ text_boundary "[]"] b'
  have 3: "\<exists>s\<in>set (extract_statistics text_boundary []). 0 \<le> s_confidence s \<and> s_confidence s \<le> 1"
    by (metis list.set_intros(1) neq_Nil_conv)
  from confidence_in_unit_interval [of _ text_sales "[]" no_lib "[metric_sales]"] c
  have 4: "\<exists>results. extract_key_metrics no_lib text_sales [metric_sales] [] = Inr results \<and>
      (\<exists>r\<in>set results. 0 \<le> k_confidence r \<and> k_confidence r \<le> 1)"
    by (metis list.set_intros(1))
  from confidence_in_unit_interval [of _ text_dollar "[]" dollar_lib "[metric_dollar]"] d
  have 5: "\<exists>results. extract_key_metrics dollar_lib text_dollar [metric_dollar] [] = Inr results \<and>
      (\<exists>r\<in>set results. 0 \<le> k_confidence r \<and> k_confidence r \<le> 1)"
    by (metis list.set_intros(1))
  from 1 2 3 4 5 show ?thesis by blast
qed

section \<open>The timeline of a text\<close>

text \<open>
  Claim C4 says that of two date tokens that overlap only the first appears in the
  timeline. For \<open>text_2024\<close> both appear: the year-and-month token and the year token
  inside it, at the same offset.
\<close>

theorem timeline_2024_counterexample:
  "extract_timeline no_lib text_2024 [] =
     Inr [\<lparr>e_date = ascii ''2024'' @ [24180] @ ascii ''3'' @ [26376], e_description = text_2024, e_position = 0\<rparr>,
          \<lparr>e_date = ascii ''2024'' @ [24180], e_description = text_2024, e_position = 0\<rparr>]"
  by (rule timeline_2024)

text \<open>
  Claim C4, amended. The timeline is ordered by ascending offset and no date token
  occurs in it twice. Every event of the timeline is one of the events found, with its
  description and offset, and every date token found stays in the timeline. Of the
  events found with the same date token the timeline keeps the first in the order of
  the offsets, which is one with the least offset: where several have that offset, the
  one found first. Two tokens that overlap in the text and differ as strings are both
  kept.
\<close>

theorem timeline_sorted_distinct:
  "(extract_timeline lib content url = Inr timeline \<longrightarrow>
      sorted (map e_position timeline) \<and> distinct (map e_date timeline)) \<and>
   (patterns_loop lib content time_patterns [] = Inr events \<longrightarrow>
      (\<exists>timeline. extract_timeline lib content url = Inr timeline \<and>
         set timeline \<subseteq> set events \<and>
         e_date ` set timeline = e_date ` set events \<and>
         (\<forall>e\<in>set timeline. \<forall>e'\<in>set events.
            e_date e' = e_date e \<longrightarrow> e_position e \<le> e_position e') \<and>
         (\<forall>e\<in>set timeline.
            find (\<lambda>x. e_date x = e_date e) (sort_key e_position events) = Some e)))"
proof (intro conjI impI)
  assume a: "extract_timeline lib content url = Inr timeline"
  then obtain events' where
    t: "timeline = unique_loop (sort_key e_position events') {} []"
    by (auto simp: extract_timeline_def split: sum.splits)
  have s: "sorted (map e_position (sort_key e_position events'))"
    by (rule sorted_sort_key)
  show "sorted (map e_position timeline)"
    unfolding t using s by (rule unique_loop_sorted)
  show "distinct (map e_date timeline)"
    unfolding t by (rule unique_loop_distinct)
next
  assume b: "patterns_loop lib content time_patterns [] = Inr events"
  let ?xs = "sort_key e_position events"
  let ?t = "unique_loop ?xs {} []"
  have s: "sorted (map e_position ?xs)"
    by (rule sorted_sort_key)
  have 1: "extract_timeline lib content url = Inr ?t"
    using b by (simp add: extract_timeline_def)
  have 2: "set ?t \<subseteq> set events"
    using unique_loop_subset [of ?xs "{}"] by simp
  have 3: "e_date ` set ?t = e_date ` set events"
    using unique_loop_dates [of ?xs "{}"] by simp
  have 4: "\<forall>e\<in>set ?t. \<forall>e'\<in>set events. e_date e' = e_date e \<longrightarrow> e_position e \<le> e_position e'"
    using unique_loop_first [OF s] by simp
  have 5: "\<forall>e\<in>set ?t. find (\<lambda>x. e_date x = e_date e) ?xs = Some e"
    using unique_loop_find by blast
  from 1 2 3 4 5 show "\<exists>timeline. extract_timeline lib content url = Inr timeline \<and>
         set timeline \<subseteq> set events \<and>
         e_date ` set timeline = e_date ` set events \<and>
         (\<forall>e\<in>set timeline. \<forall>e'\<in>set events.
            e_date e' = e_date e \<longrightarrow> e_position e \<le> e_position e') \<and>
         (\<forall>e\<in>set timeline.
            find (\<lambda>x. e_date x = e_date e) (sort_key e_position events) = Some e)"
    by blast
qed

theorem timeline_sorted_distinct_witness:
  "(\<exists>events timeline.
      patterns_loop no_lib text_twice time_patterns [] = Inr events \<and> length events = 2 \<and>
      extract_timeline no_lib text_twice [] = Inr timeline \<and> length timeline = 1 \<and>
      sorted (map e_position timeline) \<and> distinct (map e_date timeline) \<and>
      set timeline \<subseteq> set events \<and>
      e_date ` set timeline = e_date ` set events \<and>
      (\<exists>e\<in>set timeline. e_position e = 0 \<and> e_description e = text_twice \<and>
         find (\<lambda>x. e_date x = e_date e) (sort_key e_position events) = Some e)) \<and>
   (\<exists>timeline. extract_timeline no_lib text_2024 [] = Inr timeline \<and> length timeline = 2 \<and>
      sorted (map e_position timeline) \<and> distinct (map e_date timeline))"
proof -
  let ?first = "\<lparr>e_date = ascii ''2024'' @ [24180], e_description = text_twice, e_position = 0\<rparr>"
  obtain events where ev: "patterns_loop no_lib text_twice time_patterns [] = Inr events"
    and le: "length events = 2"
    using events_twice [of no_lib] by simp
  have tl: "extract_timeline no_lib text_twice [] = Inr [?first]"
    by (rule timeline_twice)
  from timeline_sorted_distinct [of no_lib text_twice "[]" "[?first]" events] tl
  have 1: "sorted (map e_position [?first]) \<and> distinct (map e_date [?first])"
    by blast
  from timeline_sorted_distinct [of no_lib text_twice "[]" "[?first]" events] ev tl
  have 2: "set [?first] \<subseteq> set events \<and> e_date ` set [?first] = e_date ` set events \<and>
      (\<forall>e\<in>set [?first]. find (\<lambda>x. e_date x = e_date e) (sort_key e_position events) = Some e)"
    by auto
  then have 3: "\<exists>e\<in>set [?first]. e_position e = 0 \<and> e_description e = text_twice \<and>
         find (\<lambda>x. e_date x = e_date e) (sort_key e_position events) = Some e"
    by simp
  have first: "\<exists>events timeline.
      patterns_loop no_lib text_twice time_patterns [] = Inr events \<and> length events = 2 \<and>
      extract_timeline no_lib text_twice [] = Inr timeline \<and> length timeline = 1 \<and>
      sorted (map e_position timeline) \<and> distinct (map e_date timeline) \<and>
      set timeline \<subseteq> set events \<and>
      e_date ` set timeline = e_date ` set events \<and>
      (\<exists>e\<in>set timeline. e_position e = 0 \<and> e_description e = text_twice \<and>
         find (\<lambda>x. e_date x = e_date e) (sort_key e_position events) = Some e)"
    using ev le tl 1 2 3
    by (intro exI [of _ events] exI [of _ "[?first]"]) simp
  obtain timeline where a: "extract_timeline no_lib text_2024 [] = Inr timeline"
    and l: "length timeline = 2"
    using timeline_2024 [of no_lib] by simp
  from timeline_sorted_distinct [of no_lib text_2024 "[]" timeline "[]"] a
  have "sorted (map e_position timeline) \<and> distinct (map e_date timeline)"
    by blast
  with a l have second: "\<exists>timeline. extract_timeline no_lib text_2024 [] = Inr timeline \<and>
      length timeline = 2 \<and> sorted (map e_position timeline) \<and> distinct (map e_date timeline)"
    by blast
  from first second show ?thesis by blast
qed

section \<open>Searching a text that is given in parts\<close>







section \<open>The metric name of the sample in a longer text\<close>










end
